theory Spec2Isabelle
  imports Complex_Main
begin

section \<open>Strings and regular expressions of the host language\<close>

text \<open>
  A JavaScript string is modelled as an Isabelle \<open>string\<close>: a list of code units below 256.
  Node decodes request header values as Latin-1, so every request origin is such a string.
  \<open>String.prototype.trim\<close> removes white space and line terminators from both ends; below
  256 these are TAB, LF, VT, FF, CR, SPACE and NO-BREAK SPACE.
\<close>

definition isWhiteSpace :: "char \<Rightarrow> bool" where
  "isWhiteSpace c =
     (c \<in> set [CHR 0x09, CHR 0x0A, CHR 0x0B, CHR 0x0C, CHR 0x0D, CHR 0x20, CHR 0xA0])"

definition trim :: "string \<Rightarrow> string" where
  "trim s = rev (dropWhile isWhiteSpace (rev (dropWhile isWhiteSpace s)))"

text \<open>
  The regular expressions of the source use literal characters, the class \<open>\d\<close>, sequencing,
  \<open>?\<close> and \<open>+\<close>. \<open>RegExp.prototype.test\<close> on a pattern anchored with \<open>^\<close> and
  \<open>$\<close> (no flags) asks whether the whole string is in the language; it is computed with
  derivatives.
\<close>

datatype regexp =
    Fail
  | Eps
  | Chr char
  | Digit
  | Seq regexp regexp
  | Alt regexp regexp
  | Star regexp

definition isDigit :: "char \<Rightarrow> bool" where
  "isDigit c = (c \<in> set ''0123456789'')"

fun nullable :: "regexp \<Rightarrow> bool" where
  "nullable Fail = False"
| "nullable Eps = True"
| "nullable (Chr c) = False"
| "nullable Digit = False"
| "nullable (Seq r s) = (nullable r \<and> nullable s)"
| "nullable (Alt r s) = (nullable r \<or> nullable s)"
| "nullable (Star r) = True"

fun deriv :: "char \<Rightarrow> regexp \<Rightarrow> regexp" where
  "deriv a Fail = Fail"
| "deriv a Eps = Fail"
| "deriv a (Chr c) = (if a = c then Eps else Fail)"
| "deriv a Digit = (if isDigit a then Eps else Fail)"
| "deriv a (Seq r s) =
     (if nullable r then Alt (Seq (deriv a r) s) (deriv a s) else Seq (deriv a r) s)"
| "deriv a (Alt r s) = Alt (deriv a r) (deriv a s)"
| "deriv a (Star r) = Seq (deriv a r) (Star r)"

fun regexp_test :: "regexp \<Rightarrow> string \<Rightarrow> bool" where
  "regexp_test r [] = nullable r"
| "regexp_test r (a # s) = regexp_test (deriv a r) s"

fun Lit :: "string \<Rightarrow> regexp" where
  "Lit [] = Eps"
| "Lit (c # cs) = Seq (Chr c) (Lit cs)"

definition Opt :: "regexp \<Rightarrow> regexp" where
  "Opt r = Alt r Eps"

definition Plus :: "regexp \<Rightarrow> regexp" where
  "Plus r = Seq r (Star r)"

fun Seqs :: "regexp list \<Rightarrow> regexp" where
  "Seqs [] = Eps"
| "Seqs [r] = r"
| "Seqs (r # rs) = Seq r (Seqs rs)"

text \<open>
  \<open>decodeURIComponent\<close> throws a \<open>URIError\<close> unless every \<open>%\<close> is followed by two
  hexadecimal digits and the escaped bytes from 128 on form well-formed UTF-8: a lead byte
  followed by escaped continuation bytes in the ranges that exclude overlong forms,
  surrogates and code points above 10FFFF. \<open>escapes\<close> splits a string into plain
  characters (\<open>None\<close>) and escaped bytes; \<open>utf8_scan\<close> checks the bytes, keeping the
  ranges that the next continuation bytes must lie in.
\<close>

definition hex_value :: "char \<Rightarrow> nat option" where
  "hex_value c =
     (if c \<in> set ''0123456789'' then Some (of_char c - 48)
      else if c \<in> set ''abcdef'' then Some (of_char c - 87)
      else if c \<in> set ''ABCDEF'' then Some (of_char c - 55)
      else None)"

fun escapes :: "string \<Rightarrow> nat option list option" where
  "escapes [] = Some []"
| "escapes [c] = (if c = CHR ''%'' then None else Some [None])"
| "escapes [c, d] = (if c = CHR ''%'' then None else map_option (Cons None) (escapes [d]))"
| "escapes (c # h # l # rest) =
     (if c = CHR ''%''
      then (case (hex_value h, hex_value l) of
              (Some x, Some y) \<Rightarrow> map_option (Cons (Some (16 * x + y))) (escapes rest)
            | _ \<Rightarrow> None)
      else map_option (Cons None) (escapes (h # l # rest)))"

definition utf8_lead :: "nat \<Rightarrow> (nat \<times> nat) list option" where
  "utf8_lead b =
     (if b < 0x80 then Some []
      else if 0xC2 \<le> b \<and> b \<le> 0xDF then Some [(0x80, 0xBF)]
      else if b = 0xE0 then Some [(0xA0, 0xBF), (0x80, 0xBF)]
      else if 0xE1 \<le> b \<and> b \<le> 0xEC then Some [(0x80, 0xBF), (0x80, 0xBF)]
      else if b = 0xED then Some [(0x80, 0x9F), (0x80, 0xBF)]
      else if 0xEE \<le> b \<and> b \<le> 0xEF then Some [(0x80, 0xBF), (0x80, 0xBF)]
      else if b = 0xF0 then Some [(0x90, 0xBF), (0x80, 0xBF), (0x80, 0xBF)]
      else if 0xF1 \<le> b \<and> b \<le> 0xF3 then Some [(0x80, 0xBF), (0x80, 0xBF), (0x80, 0xBF)]
      else if b = 0xF4 then Some [(0x80, 0x8F), (0x80, 0xBF), (0x80, 0xBF)]
      else None)"

fun utf8_scan :: "(nat \<times> nat) list \<Rightarrow> nat option list \<Rightarrow> bool" where
  "utf8_scan pending [] = (pending = [])"
| "utf8_scan [] (None # ts) = utf8_scan [] ts"
| "utf8_scan [] (Some b # ts) =
     (case utf8_lead b of None \<Rightarrow> False | Some pending \<Rightarrow> utf8_scan pending ts)"
| "utf8_scan ((lo, hi) # pending) (Some b # ts) = (lo \<le> b \<and> b \<le> hi \<and> utf8_scan pending ts)"
| "utf8_scan ((lo, hi) # pending) (None # ts) = False"

definition decodable :: "string \<Rightarrow> bool" where
  "decodable s = (case escapes s of None \<Rightarrow> False | Some ts \<Rightarrow> utf8_scan [] ts)"

text \<open>The path of a request URL in origin form: what comes before the query or fragment.\<close>

definition pathname :: "string \<Rightarrow> string" where
  "pathname url = takeWhile (\<lambda>c. c \<noteq> CHR ''?'' \<and> c \<noteq> CHR ''#'') url"

text \<open>
  The language of a regular expression, to say what the patterns of the source accept:
  concatenation, iteration, and the strings that are one or more decimal digits.
\<close>

definition conc :: "string set \<Rightarrow> string set \<Rightarrow> string set" where
  "conc A B = {xs @ ys | xs ys. xs \<in> A \<and> ys \<in> B}"

inductive_set star :: "string set \<Rightarrow> string set" for A :: "string set" where
  star_empty: "[] \<in> star A"
| star_more: "xs \<in> A \<Longrightarrow> ys \<in> star A \<Longrightarrow> xs @ ys \<in> star A"

fun lang :: "regexp \<Rightarrow> string set" where
  "lang Fail = {}"
| "lang Eps = {[]}"
| "lang (Chr c) = {[c]}"
| "lang Digit = {[d] | d. isDigit d}"
| "lang (Seq r s) = conc (lang r) (lang s)"
| "lang (Alt r s) = lang r \<union> lang s"
| "lang (Star r) = star (lang r)"

definition digits :: "string \<Rightarrow> bool" where
  "digits ds = (ds \<noteq> [] \<and> (\<forall>d \<in> set ds. isDigit d))"

section \<open>Configuration snapshot\<close>

text \<open>
  The configuration module is outside the application module; the fields that
  \<open>app.js\<close> reads are taken as a parameter. A field that the code guards with \<open>||\<close> or
  tests for truthiness may be missing (\<open>None\<close>). \<open>config.security.cors.origins\<close> is
  either an array of strings or a single value. Options that are handed through to a
  library unread (CORS methods and headers, the cookie secret) are left out.
\<close>

datatype origins_setting = OriginArray "string list" | OriginValue "string option"

record config =
  app_env :: string
  app_name :: "string option"
  app_version :: "string option"
  app_url :: "string option"
  app_apiVersion :: "string option"
  app_apiPrefix :: "string option"
  app_uploadLimit :: "string option"
  helmet_enabled :: bool
  cors_enabled :: bool
  cors_origins :: origins_setting
  sanitize_enabled :: bool
  logging_enabled :: bool
  session_store :: string
  session_idleTimeout :: "real option"

text \<open>\<open>v || d\<close> on a string that may be missing: the empty string is falsy too.\<close>

definition falsy :: "string option \<Rightarrow> bool" where
  "falsy v = (case v of None \<Rightarrow> True | Some s \<Rightarrow> s = [])"

definition or_default :: "string option \<Rightarrow> string \<Rightarrow> string" where
  "or_default v d = (if falsy v then d else the v)"

section \<open>CORS origin predicate\<close>

text \<open>
  Errors: a plain \<open>Error\<close> with its message, the application's \<open>AppError\<close> with message
  and status code, the HTTP errors that the body parsers create, and the \<open>URIError\<close> that
  Express gives a status and a message when a route parameter does not decode.
\<close>

datatype js_error =
    Error string
  | AppError string nat
  | HttpError nat string
  | URIError nat string

text \<open>
  \<open>Array.isArray(origins) ? origins : [origins].filter(Boolean)\<close>: a missing or empty single
  value is filtered out.
\<close>

fun allowedOrigins :: "origins_setting \<Rightarrow> string list" where
  "allowedOrigins (OriginArray os) = os"
| "allowedOrigins (OriginValue None) = []"
| "allowedOrigins (OriginValue (Some v)) = (if v = [] then [] else [v])"

definition port_suffix :: regexp where
  "port_suffix = Opt (Seq (Chr CHR '':'') (Plus Digit))"

definition localhost_re :: regexp where
  "localhost_re = Seqs [Lit ''http'', Opt (Chr CHR ''s''), Lit ''://localhost'', port_suffix]"

definition loopback_re :: regexp where
  "loopback_re = Seqs [Lit ''http'', Opt (Chr CHR ''s''), Lit ''://127.0.0.1'', port_suffix]"

definition lan_re :: regexp where
  "lan_re = Seqs [Lit ''http'', Opt (Chr CHR ''s''), Lit ''://10.0.0.'', Plus Digit, port_suffix]"

definition isLocalhost :: "string \<Rightarrow> bool" where
  "isLocalhost s =
     (regexp_test localhost_re s \<or> regexp_test loopback_re s \<or> regexp_test lan_re s)"

text \<open>
  The \<open>origin\<close> option handed to the CORS middleware. The request origin is \<open>None\<close> when
  the header is missing; \<open>!origin\<close> also holds for the empty string. The result is the pair
  given to the callback: \<open>Inr True\<close> for \<open>callback(null, true)\<close>, \<open>Inl e\<close> for
  \<open>callback(e)\<close>.
\<close>

definition corsOrigin :: "config \<Rightarrow> string option \<Rightarrow> js_error + bool" where
  "corsOrigin cfg origin =
     (if falsy origin then Inr True
      else
        let allowed = allowedOrigins (cors_origins cfg);
            trimmedAllowedOrigins = map trim allowed;
            trimmedIncomingOrigin = trim (the origin)
        in if trimmedIncomingOrigin \<in> set trimmedAllowedOrigins then Inr True
           else if app_env cfg = ''development'' \<and> isLocalhost trimmedIncomingOrigin then Inr True
           else Inl (Error ''Not allowed by CORS''))"

section \<open>Requests and responses\<close>

text \<open>
  The parts of a request that the application module reads or writes, and what a body
  parser looks at: whether there is a body, its media type and its bytes (\<open>payload\<close>).
  \<open>Utf8 b\<close> stands for the string \<open>b.toString('utf8')\<close>; \<open>JsonValue b\<close> and
  \<open>FormValue b\<close> stand for what the JSON and the form parser make of the bytes \<open>b\<close>.
\<close>

datatype media = Json | Urlencoded | OtherMedia string

datatype js_text = Utf8 string

datatype parsed_body = Unparsed | EmptyObject | JsonValue string | FormValue string

record request =
  req_method :: string
  originalUrl :: string
  origin :: "string option"
  has_body :: bool
  content_type :: "media option"
  payload :: string
  rawBody :: "js_text option"
  parsed :: parsed_body
  body_read :: bool

record database_status =
  db_state :: string
  ready :: bool
  db_message :: string

record memory_usage =
  rss :: nat
  heapTotal :: nat
  heapUsed :: nat

text \<open>What the handlers read from the process and the datastore when they run.\<close>

record runtime =
  getStatus :: database_status
  memoryUsage :: memory_usage
  uptime :: real
  now_iso :: string

record service_info =
  svc_name :: "string option"
  svc_version :: string
  svc_environment :: string
  svc_uptime :: real

record memory_info =
  mem_rss :: string
  mem_heapTotal :: string
  mem_heapUsed :: string

record health_body =
  h_status :: string
  h_timestamp :: string
  h_service :: service_info
  h_database :: database_status
  h_memory :: memory_info

record endpoints_info =
  ep_health :: string
  ep_api :: string

record root_body =
  r_name :: string
  r_description :: string
  r_version :: string
  r_documentation :: string
  r_status :: string
  r_endpoints :: endpoints_info

datatype body = HealthBody health_body | RootBody root_body

record response =
  status_code :: nat
  json :: body

section \<open>Middleware stages and application state\<close>

datatype max_age = Duration string | Millis nat

record parser_opts =
  p_limit :: string
  p_verify :: bool

datatype router = ApiRouter "(string \<times> string) list" | DocsRoute

datatype verbs = OnlyGet | AllVerbs

datatype handler = Health | SessionCheck | SessionDebug | Root | CatchAll

text \<open>
  One constructor for each kind of layer that \<open>app.js\<close> puts on the Express stack, with the
  options that the code computes. \<open>Helmet off\<close> records whether the content security policy
  is switched off before the options of the configuration are spread over it; \<open>Session useDatabase secure\<close> the two options of the session middleware;
  \<open>IdleSessionTimeout m\<close> the threshold in minutes. \<open>Passport\<close> stands for whatever
  \<open>passportConfig.initialize\<close> installs.
\<close>

datatype stage =
    Helmet bool
  | Cors
  | JsonParser parser_opts
  | UrlencodedParser parser_opts
  | MongoSanitize
  | CookieParser
  | Compression
  | MethodOverride string
  | Static string string max_age
  | HttpLogger
  | Morgan string
  | Session bool bool
  | Flash
  | FlashLocals
  | SessionSecurity
  | SessionActivity
  | IdleSessionTimeout real
  | ConnectionTracking
  | Passport
  | UserLocals
  | Mount string router
  | Route verbs string handler
  | NotFoundHandler
  | ErrorHandler

datatype level = Info | Warn | Err

text \<open>
  The calls that the application makes on its collaborators (logger, datastore,
  authentication bootstrap, open responses), in the order in which they are made.
\<close>

datatype effect =
    Log level string
  | DbConnect
  | DbClose
  | PassportInitialize
  | ConnectionEnd nat

text \<open>
  The application instance: the Express stack, the \<open>trust proxy\<close> setting, the connection
  set (a JavaScript \<open>Set\<close> keeps insertion order and no duplicates; response handles are
  numbered) and the shutdown flag, together with the effects so far.
\<close>

record application =
  stack :: "stage list"
  trust_proxy :: bool
  connections :: "nat list"
  isShuttingDown :: bool
  effects :: "effect list"

definition constructor :: application where
  "constructor =
     \<lparr>stack = [], trust_proxy = False, connections = [], isShuttingDown = False, effects = []\<rparr>"

definition use :: "stage \<Rightarrow> application \<Rightarrow> application" where
  "use s a = a\<lparr>stack := stack a @ [s]\<rparr>"

definition emit :: "effect \<Rightarrow> application \<Rightarrow> application" where
  "emit e a = a\<lparr>effects := effects a @ [e]\<rparr>"

definition logger :: "level \<Rightarrow> string \<Rightarrow> application \<Rightarrow> application" where
  "logger l m a = emit (Log l m) a"

definition set_add :: "nat \<Rightarrow> nat list \<Rightarrow> nat list" where
  "set_add x xs = (if x \<in> set xs then xs else xs @ [x])"

definition set_delete :: "nat \<Rightarrow> nat list \<Rightarrow> nat list" where
  "set_delete x xs = removeAll x xs"

section \<open>setupMiddleware\<close>

definition truthy_number :: "real option \<Rightarrow> bool" where
  "truthy_number v = (case v of None \<Rightarrow> False | Some x \<Rightarrow> x \<noteq> 0)"

definition setupMiddleware :: "config \<Rightarrow> application \<Rightarrow> application" where
  "setupMiddleware cfg a0 =
    (let production = (app_env cfg = ''production'');
         development = (app_env cfg = ''development'');
         limit = or_default (app_uploadLimit cfg) ''10mb'';
         a = (if production then a0\<lparr>trust_proxy := True\<rparr> else a0);
         a = (if helmet_enabled cfg then use (Helmet (\<not> production)) a else a);
         a = (if cors_enabled cfg
              then use Cors (logger Info ''CORS Configuration Debug'' a)
              else logger Warn
                ''CORS is disabled - this may cause issues with frontend communication'' a);
         a = use (JsonParser \<lparr>p_limit = limit, p_verify = True\<rparr>) a;
         a = use (UrlencodedParser \<lparr>p_limit = limit, p_verify = False\<rparr>) a;
         a = (if sanitize_enabled cfg then use MongoSanitize a else a);
         a = use CookieParser a;
         a = use Compression a;
         a = use (MethodOverride ''_method'') a;
         a = use (MethodOverride ''X-HTTP-Method-Override'') a;
         a = use (Static ''/uploads'' ''uploads''
                    (if production then Duration ''7d'' else Millis 0)) a;
         a = use (Static ''/public'' ''public''
                    (if production then Duration ''30d'' else Millis 0)) a;
         a = (if logging_enabled cfg
              then (let b = use HttpLogger a
                    in if development then use (Morgan ''dev'') b else b)
              else a);
         a = use (Session (session_store cfg = ''mongodb'') production) a;
         a = use Flash a;
         a = use FlashLocals a;
         a = use SessionSecurity a;
         a = use SessionActivity a;
         a = (if truthy_number (session_idleTimeout cfg)
              then use (IdleSessionTimeout (the (session_idleTimeout cfg) / 60000)) a
              else a);
         a = use ConnectionTracking a
     in a)"

text \<open>
  The two body parsers are Express's. What the library decides by itself is a parameter:
  whether a parser, with its options, skips a request (no body, another media type),
  refuses it before reading (a character set it does not take), fails while reading (a
  body over the limit, an unknown content encoding, a broken stream) or reads it, and then
  with which bytes; and whether parsing these bytes fails (malformed JSON, too many form
  parameters).
\<close>

datatype reading = Skipped | Unsupported js_error | Failed js_error | Read string

record body_library =
  reading_of :: "media \<Rightarrow> parser_opts \<Rightarrow> request \<Rightarrow> reading"
  parse_error :: "media \<Rightarrow> string \<Rightarrow> js_error option"

text \<open>The hook of the source: \<open>req.rawBody = buf.toString('utf8')\<close>.\<close>

definition verify :: "request \<Rightarrow> string \<Rightarrow> request" where
  "verify req buf = req\<lparr>rawBody := Some (Utf8 buf)\<rparr>"

text \<open>
  The frame that the library puts around these decisions: a request that a parser has
  taken before (\<open>req._body\<close>) is passed on; \<open>req.body\<close> becomes an empty object if it was
  not set; the request is marked as taken when reading starts; the \<open>verify\<close> hook, when
  the parser was given one, runs on the bytes read, before they are parsed; and
  \<open>req.body\<close> is set when parsing succeeds.
\<close>

definition body_parser ::
  "body_library \<Rightarrow> media \<Rightarrow> parser_opts \<Rightarrow> request \<Rightarrow> js_error option \<times> request" where
  "body_parser lib kind opts req =
     (if body_read req then (None, req)
      else
        let req1 = (if parsed req = Unparsed then req\<lparr>parsed := EmptyObject\<rparr> else req)
        in case reading_of lib kind opts req of
             Skipped \<Rightarrow> (None, req1)
           | Unsupported e \<Rightarrow> (Some e, req1)
           | Failed e \<Rightarrow> (Some e, req1\<lparr>body_read := True\<rparr>)
           | Read buf \<Rightarrow>
               (let req2 = req1\<lparr>body_read := True\<rparr>;
                    req3 = (if p_verify opts then verify req2 buf else req2)
                in case parse_error lib kind buf of
                     Some e \<Rightarrow> (Some e, req3)
                   | None \<Rightarrow>
                       (None,
                        req3\<lparr>parsed := (if kind = Json then JsonValue buf else FormValue buf)\<rparr>)))"

text \<open>
  The body-parsing stage of a stack: its parser layers, run in order; an error ends the
  stage.
\<close>

fun body_parsing ::
  "body_library \<Rightarrow> stage list \<Rightarrow> request \<Rightarrow> js_error option \<times> request" where
  "body_parsing lib [] req = (None, req)"
| "body_parsing lib (JsonParser opts # ls) req =
     (case body_parser lib Json opts req of
        (Some e, req') \<Rightarrow> (Some e, req')
      | (None, req') \<Rightarrow> body_parsing lib ls req')"
| "body_parsing lib (UrlencodedParser opts # ls) req =
     (case body_parser lib Urlencoded opts req of
        (Some e, req') \<Rightarrow> (Some e, req')
      | (None, req') \<Rightarrow> body_parsing lib ls req')"
| "body_parsing lib (l # ls) req = body_parsing lib ls req"

text \<open>The layers that parse bodies.\<close>

fun is_parser :: "stage \<Rightarrow> bool" where
  "is_parser (JsonParser opts) = True"
| "is_parser (UrlencodedParser opts) = True"
| "is_parser l = False"

text \<open>
  The CORS check of a stack: the origin predicate of the source is consulted by the
  \<open>Cors\<close> layer only.
\<close>

fun cors_check :: "config \<Rightarrow> stage list \<Rightarrow> string option \<Rightarrow> js_error option" where
  "cors_check cfg [] R = None"
| "cors_check cfg (Cors # ls) R =
     (case corsOrigin cfg R of Inl e \<Rightarrow> Some e | Inr ok \<Rightarrow> cors_check cfg ls R)"
| "cors_check cfg (l # ls) R = cors_check cfg ls R"

text \<open>
  Modelled from the spec: the idle-timeout middleware of the session manager, which is not
  part of \<open>app.js\<close>; it is "parameterized by an idle-minutes threshold" and "invalidates
  sessions inactive beyond the threshold". A session that has been idle for \<open>idle\<close>
  minutes is invalidated by a stack when one of its idle-timeout layers has a smaller
  threshold.
\<close>

fun idle_invalidates :: "stage list \<Rightarrow> real \<Rightarrow> bool" where
  "idle_invalidates [] idle = False"
| "idle_invalidates (IdleSessionTimeout m # ls) idle = (m < idle \<or> idle_invalidates ls idle)"
| "idle_invalidates (l # ls) idle = idle_invalidates ls idle"

section \<open>Connection tracking\<close>

text \<open>
  The tracking middleware adds the response handle to the set and registers a listener
  that deletes it when the response emits \<open>finish\<close>.
\<close>

definition track :: "nat \<Rightarrow> application \<Rightarrow> application" where
  "track res a = a\<lparr>connections := set_add res (connections a)\<rparr>"

definition on_finish :: "nat \<Rightarrow> application \<Rightarrow> application" where
  "on_finish res a = a\<lparr>connections := set_delete res (connections a)\<rparr>"

section \<open>setupPassport, setupRoutes, setupErrorHandling\<close>

text \<open>
  What the collaborators answer: whether \<open>Database.connect\<close>,
  \<open>passportConfig.initialize\<close> and \<open>Database.close\<close> reject, and whether \<open>end()\<close> on a
  response handle throws.
\<close>

record collaborators =
  connect_outcome :: "js_error option"
  passport_outcome :: "js_error option"
  close_outcome :: "js_error option"
  end_outcome :: "nat \<Rightarrow> js_error option"

definition setupPassport :: "collaborators \<Rightarrow> application \<Rightarrow> js_error option \<times> application" where
  "setupPassport w a0 =
     (let a = emit PassportInitialize a0
      in case passport_outcome w of
           Some error \<Rightarrow>
             (Some error, logger Err ''Failed to configure authentication strategies'' a)
         | None \<Rightarrow>
             (None,
              use UserLocals
                (logger Info ''Authentication strategies initialized successfully''
                   (use Passport a))))"

definition setupRoutes :: "config \<Rightarrow> application \<Rightarrow> application" where
  "setupRoutes cfg a0 =
    (let apiVersion = or_default (app_apiVersion cfg) ''v1'';
         apiPrefix = or_default (app_apiPrefix cfg) ''/api'';
         apiRouter = ApiRouter
           [(''/auth'', ''authRoutes''), (''/users'', ''userRoutes''),
            (''/teams'', ''teamRoutes''), (''/departments'', ''departmentRoutes''),
            (''/organizations'', ''organizationRoutes''), (''/projects'', ''projectRoutes''),
            (''/services'', ''serviceRoutes''), (''/events'', ''eventRoutes''),
            (''/case-studies'', ''caseStudyRoutes''), (''/blog'', ''blogRoutes''),
            (''/newsletter'', ''newsletterRoutes''), (''/contact'', ''contactFormRoutes'')];
         a = use (Mount (apiPrefix @ ''/'' @ apiVersion) apiRouter) a0;
         a = use (Mount ''/docs'' DocsRoute) a;
         a = use (Route OnlyGet ''/health'' Health) a;
         a = use (Route OnlyGet ''/session-check'' SessionCheck) a;
         a = (if app_env cfg = ''development''
              then use (Route OnlyGet ''/session-debug'' SessionDebug) a else a);
         a = use (Route OnlyGet ''/'' Root) a;
         a = use (Route AllVerbs ''*'' CatchAll) a
     in a)"

definition setupErrorHandling :: "application \<Rightarrow> application" where
  "setupErrorHandling a = use ErrorHandler (use NotFoundHandler a)"

text \<open>The layers that \<open>setupRoutes\<close> mounts are routers and routes.\<close>

fun is_route :: "stage \<Rightarrow> bool" where
  "is_route (Mount p r) = True"
| "is_route (Route vs p h) = True"
| "is_route l = False"

section \<open>initialize, start, stop\<close>

definition initialize ::
  "collaborators \<Rightarrow> config \<Rightarrow> application \<Rightarrow> js_error option \<times> application" where
  "initialize w cfg a0 =
     (let a = setupMiddleware cfg a0
      in case setupPassport w a of
           (Some error, a') \<Rightarrow> (Some error, a')
         | (None, a') \<Rightarrow> (None, setupErrorHandling (setupRoutes cfg a')))"

text \<open>
  \<open>start\<close> resolves with the Express application (\<open>None\<close>: no error) or rejects with the
  error that it caught, logged and threw again.
\<close>

definition start ::
  "collaborators \<Rightarrow> config \<Rightarrow> application \<Rightarrow> js_error option \<times> application" where
  "start w cfg a0 =
     (let a = emit DbConnect a0
      in case connect_outcome w of
           Some error \<Rightarrow> (Some error, logger Err ''Failed to start application'' a)
         | None \<Rightarrow>
             (case initialize w cfg (logger Info ''Database connected successfully'' a) of
                (Some error, a') \<Rightarrow> (Some error, logger Err ''Failed to start application'' a')
              | (None, a') \<Rightarrow> (None, logger Info ''Application initialized successfully'' a')))"

text \<open>The loop over the connection set; a throwing \<open>end()\<close> leaves the loop.\<close>

fun end_connections ::
  "(nat \<Rightarrow> js_error option) \<Rightarrow> nat list \<Rightarrow> application \<Rightarrow> js_error option \<times> application" where
  "end_connections f [] a = (None, a)"
| "end_connections f (c # cs) a =
     (let a' = emit (ConnectionEnd c) a
      in case f c of Some error \<Rightarrow> (Some error, a') | None \<Rightarrow> end_connections f cs a')"

definition stop :: "collaborators \<Rightarrow> application \<Rightarrow> js_error option \<times> application" where
  "stop w a0 =
     (if isShuttingDown a0
      then (None, logger Warn ''Application is already shutting down'' a0)
      else
        let a = logger Info ''Stopping application gracefully'' (a0\<lparr>isShuttingDown := True\<rparr>)
        in case end_connections (end_outcome w) (connections a) a of
             (Some error, a') \<Rightarrow> (Some error, logger Err ''Error during application shutdown'' a')
           | (None, a') \<Rightarrow>
               (let a'' = emit DbClose a'
                in case close_outcome w of
                     Some error \<Rightarrow>
                       (Some error, logger Err ''Error during application shutdown'' a'')
                   | None \<Rightarrow>
                       (None,
                        logger Info ''Application stopped successfully''
                          (logger Info ''Database connection closed'' a''))))"

text \<open>
  What happens to a running application: a request comes in and gets its response handle
  (\<open>Begin\<close>); it reaches the tracking middleware, the last layer that \<open>setupMiddleware\<close>
  installs (\<open>Arrive\<close>); a response emits \<open>finish\<close>; a response is closed without
  having finished (\<open>Close\<close>), for which the application has no listener; or \<open>stop\<close> is
  called.
\<close>

datatype event = Begin nat | Arrive nat | Finish nat | Close nat | Stop collaborators

fun step :: "event \<Rightarrow> application \<Rightarrow> application" where
  "step (Begin res) a = a"
| "step (Arrive res) a = track res a"
| "step (Finish res) a = on_finish res a"
| "step (Close res) a = a"
| "step (Stop w) a = snd (stop w a)"

fun run :: "event list \<Rightarrow> application \<Rightarrow> application" where
  "run [] a = a"
| "run (e # es) a = run es (step e a)"

section \<open>Route handlers\<close>

text \<open>Decimal digits of a number, as a template literal prints a small integer.\<close>

function show_nat :: "nat \<Rightarrow> string" where
  "show_nat n =
     (if n < 10 then [''0123456789'' ! n] else show_nat (n div 10) @ [''0123456789'' ! (n mod 10)])"
  by pat_completeness auto
termination
  by (relation "measure id") auto

declare show_nat.simps [simp del]

text \<open>
  \<open>Math.round(bytes / 1024 / 1024)\<close> on a byte count: dividing by a power of two is exact,
  and \<open>Math.round\<close> rounds halves up.
\<close>

text \<open>Reading a decimal numeral back.\<close>

fun read_nat :: "string \<Rightarrow> nat" where
  "read_nat s = foldl (\<lambda>a c. 10 * a + (of_char c - 48)) 0 s"

definition round_mb :: "nat \<Rightarrow> nat" where
  "round_mb n = (n + 524288) div 1048576"

definition megabytes :: "nat \<Rightarrow> string" where
  "megabytes n = show_nat (round_mb n) @ ''MB''"

definition health_handler :: "config \<Rightarrow> runtime \<Rightarrow> response" where
  "health_handler cfg rt =
     (let dbStatus = getStatus rt;
          memoryUsage = memoryUsage rt
      in \<lparr>status_code = (if ready dbStatus then 200 else 503),
          json = HealthBody
            \<lparr>h_status = (if ready dbStatus then ''healthy'' else ''unhealthy''),
             h_timestamp = now_iso rt,
             h_service =
               \<lparr>svc_name = app_name cfg,
                svc_version = or_default (app_version cfg) ''3.0.0'',
                svc_environment = app_env cfg,
                svc_uptime = uptime rt\<rparr>,
             h_database =
               \<lparr>db_state = db_state dbStatus,
                ready = ready dbStatus,
                db_message = db_message dbStatus\<rparr>,
             h_memory =
               \<lparr>mem_rss = megabytes (rss memoryUsage),
                mem_heapTotal = megabytes (heapTotal memoryUsage),
                mem_heapUsed = megabytes (heapUsed memoryUsage)\<rparr>\<rparr>\<rparr>)"

text \<open>A missing value prints as \<open>undefined\<close> inside a template literal.\<close>

definition template :: "string option \<Rightarrow> string" where
  "template v = (case v of None \<Rightarrow> ''undefined'' | Some s \<Rightarrow> s)"

definition root_handler :: "config \<Rightarrow> response" where
  "root_handler cfg =
     (let apiVersion = or_default (app_apiVersion cfg) ''v1'';
          apiPrefix = or_default (app_apiPrefix cfg) ''/api''
      in \<lparr>status_code = 200,
          json = RootBody
            \<lparr>r_name = or_default (app_name cfg) ''Consulting Platform API'',
             r_description = ''Enterprise Consulting Platform API'',
             r_version = or_default (app_version cfg) ''3.0.0'',
             r_documentation = template (app_url cfg) @ ''/docs'',
             r_status = ''operational'',
             r_endpoints = \<lparr>ep_health = ''/health'', ep_api = apiPrefix @ ''/'' @ apiVersion\<rparr>\<rparr>\<rparr>)"

text \<open>The handler for undefined routes hands this error to \<open>next\<close>.\<close>

definition catch_all :: "request \<Rightarrow> js_error" where
  "catch_all req = AppError (''Can't find '' @ originalUrl req @ '' on this server!'') 404"

section \<open>Walking the stack\<close>

text \<open>
  A layer passes the request on (\<open>next()\<close>), hands an error on (\<open>next(err)\<close>) or ends the
  request with a response. Express skips error-handling layers while there is no error
  and, once there is one, skips every layer that is not error-handling; of the layers
  here only the global error handler is error-handling.
\<close>

datatype action = Pass request | Raise js_error | Done response


text \<open>
  What is outside \<open>app.js\<close>: how Express matches a route path against a URL, the body
  parser library, and what the layers do whose code lives elsewhere.
\<close>

record environment =
  path_matches :: "string \<Rightarrow> string \<Rightarrow> bool"
  parser_lib :: body_library
  external :: "stage \<Rightarrow> request \<Rightarrow> action"

text \<open>
  A route registered with \<open>app.get\<close> serves GET and HEAD, one registered with
  \<open>app.all\<close> every method. The path \<open>*\<close> matches the path of every URL and captures it
  as a parameter, which Express decodes; when the path does not decode, the match fails
  with a \<open>URIError\<close> of status 400, whatever the method is. The URL that the router
  matches is the original URL: no layer of \<open>app.js\<close> rewrites \<open>req.url\<close>.
\<close>

definition route_matches :: "environment \<Rightarrow> verbs \<Rightarrow> string \<Rightarrow> request \<Rightarrow> bool" where
  "route_matches env vs pat req =
     ((vs = AllVerbs \<or> req_method req = ''GET'' \<or> req_method req = ''HEAD'')
      \<and> (if pat = ''*'' then decodable (pathname (originalUrl req))
          else path_matches env pat (originalUrl req)))"

definition decode_failure :: "string \<Rightarrow> js_error" where
  "decode_failure val = URIError 400 (''Failed to decode param '' @ [CHR 0x27] @ val @ [CHR 0x27])"

definition parser_action :: "js_error option \<times> request \<Rightarrow> action" where
  "parser_action r = (case r of (Some e, req') \<Rightarrow> Raise e | (None, req') \<Rightarrow> Pass req')"

fun layer_action :: "environment \<Rightarrow> config \<Rightarrow> runtime \<Rightarrow> stage \<Rightarrow> request \<Rightarrow> action" where
  "layer_action env cfg rt Cors req =
     (case corsOrigin cfg (origin req) of Inl e \<Rightarrow> Raise e | Inr ok \<Rightarrow> external env Cors req)"
| "layer_action env cfg rt (JsonParser opts) req =
     parser_action (body_parser (parser_lib env) Json opts req)"
| "layer_action env cfg rt (UrlencodedParser opts) req =
     parser_action (body_parser (parser_lib env) Urlencoded opts req)"
| "layer_action env cfg rt (Route vs pat h) req =
     (if pat = ''*'' \<and> \<not> decodable (pathname (originalUrl req))
      then Raise (decode_failure (pathname (originalUrl req)))
      else if route_matches env vs pat req
      then (case h of
              Health \<Rightarrow> Done (health_handler cfg rt)
            | Root \<Rightarrow> Done (root_handler cfg)
            | CatchAll \<Rightarrow> Raise (catch_all req)
            | SessionCheck \<Rightarrow> external env (Route vs pat h) req
            | SessionDebug \<Rightarrow> external env (Route vs pat h) req)
      else Pass req)"
| "layer_action env cfg rt l req = external env l req"




section \<open>Observations on runs\<close>

text \<open>
  The response handles that \<open>stop\<close> has called \<open>end()\<close> on, read off the effects, and
  the handles that one pass of the loop ends.
\<close>

fun ended :: "effect list \<Rightarrow> nat list" where
  "ended [] = []"
| "ended (ConnectionEnd c # es) = c # ended es"
| "ended (e # es) = ended es"

fun ended_by :: "(nat \<Rightarrow> js_error option) \<Rightarrow> nat list \<Rightarrow> nat list" where
  "ended_by f [] = []"
| "ended_by f (c # cs) = c # (case f c of Some error \<Rightarrow> [] | None \<Rightarrow> ended_by f cs)"

text \<open>
  No response handle reaches the tracking middleware after it has emitted \<open>finish\<close>:
  \<open>ordered F es\<close> says so of the events \<open>es\<close> that follow the finishes \<open>F\<close>.
\<close>

fun ordered :: "nat list \<Rightarrow> event list \<Rightarrow> bool" where
  "ordered F [] = True"
| "ordered F (Arrive r # es) = (r \<notin> set F \<and> ordered F es)"
| "ordered F (Finish r # es) = ordered (r # F) es"
| "ordered F (e # es) = ordered F es"

text \<open>
  The requests in flight after a list of events: begun, and the response neither finished
  nor closed.
\<close>

definition in_flight :: "event list \<Rightarrow> nat \<Rightarrow> bool" where
  "in_flight es r = (Begin r \<in> set es \<and> Finish r \<notin> set es \<and> Close r \<notin> set es)"

text \<open>What every run keeps true of the connection set and of the shutdown effects.\<close>

definition shutdown_inv :: "application \<Rightarrow> bool" where
  "shutdown_inv a =
     (distinct (connections a) \<and> distinct (ended (effects a))
      \<and> count_list (effects a) DbClose \<le> 1
      \<and> (\<not> isShuttingDown a \<longrightarrow> ended (effects a) = [] \<and> count_list (effects a) DbClose = 0))"


section \<open>Example values\<close>

definition example_config :: config where
  "example_config =
     \<lparr>app_env = ''development'', app_name = Some ''InsightSerenity'', app_version = None,
      app_url = Some ''http://localhost:8000'', app_apiVersion = None, app_apiPrefix = None,
      app_uploadLimit = None, helmet_enabled = True, cors_enabled = True,
      cors_origins = OriginArray ['' https://app.example.com ''],
      sanitize_enabled = True, logging_enabled = True, session_store = ''mongodb'',
      session_idleTimeout = Some 1800000\<rparr>"

definition example_collaborators :: collaborators where
  "example_collaborators =
     \<lparr>connect_outcome = None, passport_outcome = None, close_outcome = None,
      end_outcome = (\<lambda>res. None)\<rparr>"

definition example_runtime :: runtime where
  "example_runtime =
     \<lparr>getStatus = \<lparr>db_state = ''connected'', ready = True, db_message = ''ok''\<rparr>,
      memoryUsage = \<lparr>rss = 104857600, heapTotal = 52953088, heapUsed = 1572864\<rparr>,
      uptime = 12.5, now_iso = ''2025-01-01T00:00:00.000Z''\<rparr>"

definition example_request :: request where
  "example_request =
     \<lparr>req_method = ''GET'', originalUrl = ''/does-not-exist'', origin = None,
      has_body = False, content_type = None, payload = [], rawBody = None,
      parsed = Unparsed, body_read = False\<rparr>"


text \<open>
  An example of a body library: it reads every body of the parser's media type that has
  at most \<open>limit\<close> bytes, and parses whatever it reads.
\<close>

definition example_library :: "nat \<Rightarrow> body_library" where
  "example_library limit =
     \<lparr>reading_of = (\<lambda>kind opts req.
        if \<not> has_body req \<or> content_type req \<noteq> Some kind then Skipped
        else if limit < length (payload req)
          then Failed (HttpError 413 ''request entity too large'')
        else Read (payload req)),
      parse_error = (\<lambda>kind buf. None)\<rparr>"

definition example_environment :: environment where
  "example_environment =
     \<lparr>path_matches = (\<lambda>pat url. pat = url),
      parser_lib = example_library 10485760,
      external = (\<lambda>l req. Pass req)\<rparr>"

definition example_outage :: runtime where
  "example_outage =
     example_runtime\<lparr>getStatus :=
       \<lparr>db_state = ''disconnected'', ready = False, db_message = ''down''\<rparr>\<rparr>"

definition example_events :: "event list" where
  "example_events =
     [Arrive 1, Arrive 2, Finish 1, Arrive 3, Stop example_collaborators, Arrive 4,
      Stop example_collaborators, Finish 3]"

definition example_traffic :: "event list" where
  "example_traffic =
     [Begin 1, Begin 2, Arrive 1, Finish 2, Begin 3, Arrive 3, Stop example_collaborators,
      Finish 1, Begin 4, Arrive 4, Stop example_collaborators]"

definition example_form_request :: request where
  "example_form_request =
     \<lparr>req_method = ''POST'', originalUrl = ''/api/v1/contact'', origin = None,
      has_body = True, content_type = Some Urlencoded, payload = ''name=Ada&lang=en'',
      rawBody = None, parsed = Unparsed, body_read = False\<rparr>"

definition example_json_request :: request where
  "example_json_request =
     \<lparr>req_method = ''POST'', originalUrl = ''/api/v1/contact'', origin = None,
      has_body = True, content_type = Some Json, payload = ''{\"name\":\"Ada\"}'',
      rawBody = None, parsed = Unparsed, body_read = False\<rparr>"

section \<open>Properties\<close>

subsection \<open>Basic facts about the state\<close>

lemma stack_use [simp]: "stack (use s a) = stack a @ [s]"
  and effects_use [simp]: "effects (use s a) = effects a"
  and connections_use [simp]: "connections (use s a) = connections a"
  and flag_use [simp]: "isShuttingDown (use s a) = isShuttingDown a"
  by (simp_all add: use_def)

lemma stack_emit [simp]: "stack (emit e a) = stack a"
  and effects_emit [simp]: "effects (emit e a) = effects a @ [e]"
  and connections_emit [simp]: "connections (emit e a) = connections a"
  and flag_emit [simp]: "isShuttingDown (emit e a) = isShuttingDown a"
  by (simp_all add: emit_def)

lemma stack_logger [simp]: "stack (logger l m a) = stack a"
  and effects_logger [simp]: "effects (logger l m a) = effects a @ [Log l m]"
  and connections_logger [simp]: "connections (logger l m a) = connections a"
  and flag_logger [simp]: "isShuttingDown (logger l m a) = isShuttingDown a"
  by (simp_all add: logger_def)

lemma constructor_fields [simp]:
  "stack constructor = []" "effects constructor = []"
  "connections constructor = []" "isShuttingDown constructor = False"
  by (simp_all add: constructor_def)

subsection \<open>The stack that the setup functions build\<close>

lemma stack_setupMiddleware:
  "stack (setupMiddleware cfg a) = stack a @
    (if helmet_enabled cfg then [Helmet (app_env cfg \<noteq> ''production'')] else []) @
    (if cors_enabled cfg then [Cors] else []) @
    [JsonParser \<lparr>p_limit = or_default (app_uploadLimit cfg) ''10mb'', p_verify = True\<rparr>,
     UrlencodedParser \<lparr>p_limit = or_default (app_uploadLimit cfg) ''10mb'', p_verify = False\<rparr>] @
    (if sanitize_enabled cfg then [MongoSanitize] else []) @
    [CookieParser, Compression, MethodOverride ''_method'',
     MethodOverride ''X-HTTP-Method-Override'',
     Static ''/uploads'' ''uploads''
       (if app_env cfg = ''production'' then Duration ''7d'' else Millis 0),
     Static ''/public'' ''public''
       (if app_env cfg = ''production'' then Duration ''30d'' else Millis 0)] @
    (if logging_enabled cfg then [HttpLogger] else []) @
    (if logging_enabled cfg \<and> app_env cfg = ''development'' then [Morgan ''dev''] else []) @
    [Session (session_store cfg = ''mongodb'') (app_env cfg = ''production''), Flash,
     FlashLocals, SessionSecurity, SessionActivity] @
    (if truthy_number (session_idleTimeout cfg)
     then [IdleSessionTimeout (the (session_idleTimeout cfg) / 60000)] else []) @
    [ConnectionTracking]"
  by (simp add: setupMiddleware_def Let_def)

lemma effects_setupMiddleware:
  "effects (setupMiddleware cfg a) = effects a @
     [if cors_enabled cfg then Log Info ''CORS Configuration Debug''
      else Log Warn ''CORS is disabled - this may cause issues with frontend communication'']"
  by (simp add: setupMiddleware_def Let_def)

lemma stack_setupRoutes:
  "stack (setupRoutes cfg a) = stack a @
     [Mount (or_default (app_apiPrefix cfg) ''/api'' @ ''/'' @ or_default (app_apiVersion cfg) ''v1'')
        (ApiRouter
           [(''/auth'', ''authRoutes''), (''/users'', ''userRoutes''),
            (''/teams'', ''teamRoutes''), (''/departments'', ''departmentRoutes''),
            (''/organizations'', ''organizationRoutes''), (''/projects'', ''projectRoutes''),
            (''/services'', ''serviceRoutes''), (''/events'', ''eventRoutes''),
            (''/case-studies'', ''caseStudyRoutes''), (''/blog'', ''blogRoutes''),
            (''/newsletter'', ''newsletterRoutes''), (''/contact'', ''contactFormRoutes'')]),
      Mount ''/docs'' DocsRoute,
      Route OnlyGet ''/health'' Health,
      Route OnlyGet ''/session-check'' SessionCheck] @
     (if app_env cfg = ''development'' then [Route OnlyGet ''/session-debug'' SessionDebug] else []) @
     [Route OnlyGet ''/'' Root, Route AllVerbs ''*'' CatchAll]"
  by (simp add: setupRoutes_def Let_def)

lemma effects_setupRoutes: "effects (setupRoutes cfg a) = effects a"
  by (simp add: setupRoutes_def Let_def)

lemma stack_setupMiddleware_append:
  "NO_MATCH constructor a \<Longrightarrow>
   stack (setupMiddleware cfg a) = stack a @ stack (setupMiddleware cfg constructor)"
  by (simp add: stack_setupMiddleware)

lemma stack_setupRoutes_append:
  "NO_MATCH constructor a \<Longrightarrow>
   stack (setupRoutes cfg a) = stack a @ stack (setupRoutes cfg constructor)"
  by (simp add: stack_setupRoutes)

lemma no_route_in_middleware:
  "l \<in> set (stack (setupMiddleware cfg constructor)) \<Longrightarrow> \<not> is_route l"
  by (auto simp add: stack_setupMiddleware split: if_splits)

lemma fst_start:
  "fst (start w cfg a) =
     (case connect_outcome w of Some e \<Rightarrow> Some e | None \<Rightarrow> passport_outcome w)"
  by (simp add: start_def initialize_def setupPassport_def Let_def split: option.splits)

lemma effects_start:
  "effects (snd (start w cfg a)) = effects a @ DbConnect #
     (case connect_outcome w of
        Some e \<Rightarrow> [Log Err ''Failed to start application'']
      | None \<Rightarrow>
          Log Info ''Database connected successfully'' #
          (if cors_enabled cfg then Log Info ''CORS Configuration Debug''
           else Log Warn ''CORS is disabled - this may cause issues with frontend communication'') #
          PassportInitialize #
          (case passport_outcome w of
             Some e \<Rightarrow> [Log Err ''Failed to configure authentication strategies'',
                         Log Err ''Failed to start application'']
           | None \<Rightarrow> [Log Info ''Authentication strategies initialized successfully'',
                       Log Info ''Application initialized successfully'']))"
  by (simp add: start_def initialize_def setupPassport_def setupErrorHandling_def Let_def
      effects_setupMiddleware effects_setupRoutes split: option.splits)

lemma stack_start:
  "stack (snd (start w cfg a)) = stack a @
     (case connect_outcome w of
        Some e \<Rightarrow> []
      | None \<Rightarrow>
          stack (setupMiddleware cfg constructor) @
          (case passport_outcome w of
             Some e \<Rightarrow> []
           | None \<Rightarrow> [Passport, UserLocals] @ stack (setupRoutes cfg constructor)
                      @ [NotFoundHandler, ErrorHandler]))"
  by (simp add: start_def initialize_def setupPassport_def setupErrorHandling_def Let_def
      stack_setupMiddleware_append stack_setupRoutes_append split: option.splits)

lemma example_middleware:
  "stack (setupMiddleware example_config constructor) =
     [Helmet True, Cors,
      JsonParser \<lparr>p_limit = ''10mb'', p_verify = True\<rparr>,
      UrlencodedParser \<lparr>p_limit = ''10mb'', p_verify = False\<rparr>,
      MongoSanitize, CookieParser, Compression, MethodOverride ''_method'',
      MethodOverride ''X-HTTP-Method-Override'',
      Static ''/uploads'' ''uploads'' (Millis 0), Static ''/public'' ''public'' (Millis 0),
      HttpLogger, Morgan ''dev'', Session True False, Flash, FlashLocals, SessionSecurity,
      SessionActivity, IdleSessionTimeout 30, ConnectionTracking]"
  by (simp add: stack_setupMiddleware example_config_def or_default_def falsy_def
      truthy_number_def)

lemma cors_check_absent: "Cors \<notin> set ls \<Longrightarrow> cors_check cfg ls R = None"
  by (induction cfg ls R rule: cors_check.induct) auto

lemmas regexp_defs =
  isLocalhost_def lan_re_def localhost_re_def loopback_re_def port_suffix_def
  Opt_def Plus_def isDigit_def

subsection \<open>What the origin patterns accept\<close>

lemma nullable_lang: "nullable r \<longleftrightarrow> [] \<in> lang r"
  by (induction r) (auto simp add: conc_def intro: star_empty)

lemma conc_Cons:
  "a # s \<in> conc A B \<longleftrightarrow>
     (\<exists>t u. s = t @ u \<and> a # t \<in> A \<and> u \<in> B) \<or> ([] \<in> A \<and> a # s \<in> B)"
proof
  assume "a # s \<in> conc A B"
  then obtain xs ys where x: "a # s = xs @ ys" "xs \<in> A" "ys \<in> B"
    by (auto simp add: conc_def)
  show "(\<exists>t u. s = t @ u \<and> a # t \<in> A \<and> u \<in> B) \<or> ([] \<in> A \<and> a # s \<in> B)"
  proof (cases xs)
    case Nil
    with x show ?thesis by simp
  next
    case (Cons b t)
    with x show ?thesis by auto
  qed
next
  assume "(\<exists>t u. s = t @ u \<and> a # t \<in> A \<and> u \<in> B) \<or> ([] \<in> A \<and> a # s \<in> B)"
  then show "a # s \<in> conc A B"
  proof
    assume "\<exists>t u. s = t @ u \<and> a # t \<in> A \<and> u \<in> B"
    then obtain t u where "s = t @ u" "a # t \<in> A" "u \<in> B" by blast
    then have "(a # t) @ u \<in> conc A B" unfolding conc_def by blast
    with \<open>s = t @ u\<close> show ?thesis by simp
  next
    assume "[] \<in> A \<and> a # s \<in> B"
    then have "[] @ (a # s) \<in> conc A B" unfolding conc_def by blast
    then show ?thesis by simp
  qed
qed

lemma star_Cons:
  "a # s \<in> star A \<longleftrightarrow> (\<exists>t u. s = t @ u \<and> a # t \<in> A \<and> u \<in> star A)"
proof
  assume "a # s \<in> star A"
  then show "\<exists>t u. s = t @ u \<and> a # t \<in> A \<and> u \<in> star A"
  proof (induction "a # s" rule: star.induct)
    case (star_more xs ys)
    show ?case
    proof (cases xs)
      case Nil
      with star_more show ?thesis by simp
    next
      case (Cons b t)
      with star_more show ?thesis by auto
    qed
  qed
next
  assume "\<exists>t u. s = t @ u \<and> a # t \<in> A \<and> u \<in> star A"
  then obtain t u where "s = t @ u" "a # t \<in> A" "u \<in> star A" by blast
  then have "(a # t) @ u \<in> star A" by (intro star_more)
  with \<open>s = t @ u\<close> show "a # s \<in> star A" by simp
qed

lemma deriv_lang: "s \<in> lang (deriv a r) \<longleftrightarrow> a # s \<in> lang r"
proof (induction r arbitrary: s)
  case (Seq r1 r2)
  then show ?case
    by (simp add: conc_Cons nullable_lang) (auto simp add: conc_def)
next
  case (Star r)
  then show ?case
    by (simp add: star_Cons) (auto simp add: conc_def)
qed auto

lemma regexp_test_lang: "regexp_test r s \<longleftrightarrow> s \<in> lang r"
  by (induction s arbitrary: r) (simp_all add: nullable_lang deriv_lang)

lemma conc_iff: "s \<in> conc A B \<longleftrightarrow> (\<exists>xs ys. s = xs @ ys \<and> xs \<in> A \<and> ys \<in> B)"
  by (auto simp add: conc_def)

lemma conc_single: "s \<in> conc {x} B \<longleftrightarrow> (\<exists>ys. s = x @ ys \<and> ys \<in> B)"
  by (auto simp add: conc_def)

lemma conc_union: "conc (A \<union> A') B = conc A B \<union> conc A' B"
  by (auto simp add: conc_def)

lemma conc_chars:
  "s \<in> conc {[d] | d. P d} B \<longleftrightarrow> (\<exists>d ys. s = d # ys \<and> P d \<and> ys \<in> B)"
proof
  assume "s \<in> conc {[d] | d. P d} B"
  then show "\<exists>d ys. s = d # ys \<and> P d \<and> ys \<in> B"
    by (auto simp add: conc_def)
next
  assume "\<exists>d ys. s = d # ys \<and> P d \<and> ys \<in> B"
  then obtain d ys where "s = [d] @ ys" "P d" "ys \<in> B" by auto
  then show "s \<in> conc {[d] | d. P d} B"
    unfolding conc_def by blast
qed

lemma lang_Lit: "lang (Lit s) = {s}"
  by (induction s) (auto simp add: conc_def)

lemma lang_Opt: "lang (Opt r) = lang r \<union> {[]}"
  by (simp add: Opt_def)

lemma star_digit: "ds \<in> star {[d] | d. isDigit d} \<longleftrightarrow> (\<forall>d \<in> set ds. isDigit d)"
proof
  assume "ds \<in> star {[d] | d. isDigit d}"
  then show "\<forall>d \<in> set ds. isDigit d"
    by (induction rule: star.induct) auto
next
  assume "\<forall>d \<in> set ds. isDigit d"
  then show "ds \<in> star {[d] | d. isDigit d}"
  proof (induction ds)
    case Nil
    show ?case by (rule star_empty)
  next
    case (Cons d ds)
    then have "[d] \<in> {[d] | d. isDigit d}" and "ds \<in> star {[d] | d. isDigit d}" by auto
    then have "[d] @ ds \<in> star {[d] | d. isDigit d}" by (rule star_more)
    then show ?case by simp
  qed
qed

lemma lang_Plus_Digit: "s \<in> lang (Plus Digit) \<longleftrightarrow> digits s"
proof -
  have "s \<in> lang (Plus Digit)
      \<longleftrightarrow> (\<exists>d ds. s = d # ds \<and> isDigit d \<and> (\<forall>x \<in> set ds. isDigit x))"
    by (auto simp add: Plus_def conc_chars star_digit)
  also have "\<dots> \<longleftrightarrow> digits s"
    by (cases s) (auto simp add: digits_def)
  finally show ?thesis .
qed

lemma lang_port_suffix:
  "s \<in> lang port_suffix \<longleftrightarrow> s = [] \<or> (\<exists>ds. digits ds \<and> s = CHR '':'' # ds)"
proof -
  have "lang port_suffix = conc {'':''} (lang (Plus Digit)) \<union> {[]}"
    by (simp add: port_suffix_def lang_Opt)
  then show ?thesis
    by (auto simp add: conc_single lang_Plus_Digit)
qed

lemma lang_scheme:
  "s \<in> conc (lang (Lit ''http'')) (conc (lang (Opt (Chr CHR ''s''))) B)
     \<longleftrightarrow> (\<exists>rest. rest \<in> B \<and> (s = ''http'' @ rest \<or> s = ''https'' @ rest))"
proof -
  have h: "lang (Lit ''http'') = {''http''}"
    by (rule lang_Lit)
  have o: "lang (Opt (Chr CHR ''s'')) = {''s''} \<union> {[]}"
    by (simp add: lang_Opt)
  show ?thesis
    unfolding h o conc_union by (auto simp add: conc_single)
qed

lemma lang_localhost_re:
  "s \<in> lang localhost_re \<longleftrightarrow>
     (\<exists>scheme port. s = scheme @ ''://localhost'' @ port
        \<and> (scheme = ''http'' \<or> scheme = ''https'') \<and> port \<in> lang port_suffix)"
proof -
  have "s \<in> lang localhost_re \<longleftrightarrow>
      (\<exists>rest. rest \<in> conc (lang (Lit ''://localhost'')) (lang port_suffix)
         \<and> (s = ''http'' @ rest \<or> s = ''https'' @ rest))"
    unfolding localhost_re_def Seqs.simps lang.simps by (rule lang_scheme)
  also have "\<dots> \<longleftrightarrow> (\<exists>scheme port. s = scheme @ ''://localhost'' @ port
        \<and> (scheme = ''http'' \<or> scheme = ''https'') \<and> port \<in> lang port_suffix)"
    unfolding conc_iff lang_Lit by blast
  finally show ?thesis .
qed

lemma lang_loopback_re:
  "s \<in> lang loopback_re \<longleftrightarrow>
     (\<exists>scheme port. s = scheme @ ''://127.0.0.1'' @ port
        \<and> (scheme = ''http'' \<or> scheme = ''https'') \<and> port \<in> lang port_suffix)"
proof -
  have "s \<in> lang loopback_re \<longleftrightarrow>
      (\<exists>rest. rest \<in> conc (lang (Lit ''://127.0.0.1'')) (lang port_suffix)
         \<and> (s = ''http'' @ rest \<or> s = ''https'' @ rest))"
    unfolding loopback_re_def Seqs.simps lang.simps by (rule lang_scheme)
  also have "\<dots> \<longleftrightarrow> (\<exists>scheme port. s = scheme @ ''://127.0.0.1'' @ port
        \<and> (scheme = ''http'' \<or> scheme = ''https'') \<and> port \<in> lang port_suffix)"
    unfolding conc_iff lang_Lit by blast
  finally show ?thesis .
qed

lemma lang_lan_re:
  "s \<in> lang lan_re \<longleftrightarrow>
     (\<exists>scheme ds port. s = scheme @ ''://10.0.0.'' @ ds @ port
        \<and> (scheme = ''http'' \<or> scheme = ''https'') \<and> digits ds \<and> port \<in> lang port_suffix)"
proof -
  have "s \<in> lang lan_re \<longleftrightarrow>
      (\<exists>rest. rest \<in> conc (lang (Lit ''://10.0.0.''))
                  (conc (lang (Plus Digit)) (lang port_suffix))
         \<and> (s = ''http'' @ rest \<or> s = ''https'' @ rest))"
    unfolding lan_re_def Seqs.simps lang.simps by (rule lang_scheme)
  also have "\<dots> \<longleftrightarrow> (\<exists>scheme ds port. s = scheme @ ''://10.0.0.'' @ ds @ port
        \<and> (scheme = ''http'' \<or> scheme = ''https'') \<and> digits ds \<and> port \<in> lang port_suffix)"
    unfolding conc_iff lang_Lit using lang_Plus_Digit by blast
  finally show ?thesis .
qed

lemma isLocalhost_iff:
  "isLocalhost s \<longleftrightarrow>
     (\<exists>scheme host port. s = scheme @ ''://'' @ host @ port
        \<and> (scheme = ''http'' \<or> scheme = ''https'')
        \<and> (host = ''localhost'' \<or> host = ''127.0.0.1''
            \<or> (\<exists>ds. digits ds \<and> host = ''10.0.0.'' @ ds))
        \<and> (port = [] \<or> (\<exists>ds. digits ds \<and> port = CHR '':'' # ds)))"
  (is "?l \<longleftrightarrow> ?r")
proof
  assume ?l
  then consider "s \<in> lang localhost_re" | "s \<in> lang loopback_re" | "s \<in> lang lan_re"
    by (auto simp add: isLocalhost_def regexp_test_lang)
  then show ?r
  proof cases
    case 1
    then obtain scheme port where "s = scheme @ ''://'' @ ''localhost'' @ port"
      "scheme = ''http'' \<or> scheme = ''https''" "port \<in> lang port_suffix"
      by (auto simp add: lang_localhost_re)
    then show ?thesis unfolding lang_port_suffix by blast
  next
    case 2
    then obtain scheme port where "s = scheme @ ''://'' @ ''127.0.0.1'' @ port"
      "scheme = ''http'' \<or> scheme = ''https''" "port \<in> lang port_suffix"
      by (auto simp add: lang_loopback_re)
    then show ?thesis unfolding lang_port_suffix by blast
  next
    case 3
    then obtain scheme ds port where "s = scheme @ ''://'' @ (''10.0.0.'' @ ds) @ port"
      "scheme = ''http'' \<or> scheme = ''https''" "digits ds" "port \<in> lang port_suffix"
      by (auto simp add: lang_lan_re)
    then show ?thesis unfolding lang_port_suffix by blast
  qed
next
  assume ?r
  then obtain scheme host port where s: "s = scheme @ ''://'' @ host @ port"
    and sc: "scheme = ''http'' \<or> scheme = ''https''"
    and h: "host = ''localhost'' \<or> host = ''127.0.0.1''
            \<or> (\<exists>ds. digits ds \<and> host = ''10.0.0.'' @ ds)"
    and p: "port \<in> lang port_suffix"
    unfolding lang_port_suffix by blast
  from h show ?l
  proof (elim disjE exE conjE)
    assume "host = ''localhost''"
    with s sc p have "s \<in> lang localhost_re"
      unfolding lang_localhost_re by (intro exI [of _ scheme] exI [of _ port]) simp
    then show ?thesis by (simp add: isLocalhost_def regexp_test_lang)
  next
    assume "host = ''127.0.0.1''"
    with s sc p have "s \<in> lang loopback_re"
      unfolding lang_loopback_re by (intro exI [of _ scheme] exI [of _ port]) simp
    then show ?thesis by (simp add: isLocalhost_def regexp_test_lang)
  next
    fix ds assume "digits ds" "host = ''10.0.0.'' @ ds"
    with s sc p have "s \<in> lang lan_re"
      unfolding lang_lan_re by (intro exI [of _ scheme] exI [of _ ds] exI [of _ port]) simp
    then show ?thesis by (simp add: isLocalhost_def regexp_test_lang)
  qed
qed

subsection \<open>The CORS origin predicate\<close>

text \<open>
  Claim C1. For every configured origin list and every request origin \<open>R\<close>, the origin
  predicate allows \<open>R\<close> exactly when \<open>R\<close> is absent (missing or empty, which is what
  \<open>!origin\<close> tests), or \<open>R\<close> trimmed is among the configured origins, each trimmed, or
  the environment is \<open>development\<close> and \<open>R\<close> (trimmed, as the code tests it) matches one
  of the three patterns for localhost, 127.0.0.1 and 10.0.0.x with an optional port
  (\<open>isLocalhost_iff\<close> spells them out). Every other origin is answered with the error
  \<open>Not allowed by CORS\<close>.
\<close>

theorem cors_origin_allowed_iff:
  "(corsOrigin cfg R = Inr True \<longleftrightarrow>
      falsy R
      \<or> trim (the R) \<in> set (map trim (allowedOrigins (cors_origins cfg)))
      \<or> (app_env cfg = ''development'' \<and> isLocalhost (trim (the R))))
   \<and> (corsOrigin cfg R = Inr True \<or> corsOrigin cfg R = Inl (Error ''Not allowed by CORS''))"
  by (simp add: corsOrigin_def Let_def)

theorem cors_origin_allowed_iff_witness:
  "corsOrigin example_config (Some ''http://10.0.0.7:5173 '') = Inr True
   \<and> corsOrigin example_config (Some ''https://app.example.com'') = Inr True
   \<and> corsOrigin example_config (Some ''https://evil.example.com'')
       = Inl (Error ''Not allowed by CORS'')"
proof -
  have lan: "app_env example_config = ''development''
      \<and> isLocalhost (trim (the (Some ''http://10.0.0.7:5173 '')))"
    by (simp add: example_config_def trim_def isWhiteSpace_def regexp_defs)
  have listed: "trim (the (Some ''https://app.example.com''))
      \<in> set (map trim (allowedOrigins (cors_origins example_config)))"
    by (simp add: example_config_def trim_def isWhiteSpace_def)
  have other: "\<not> (falsy (Some ''https://evil.example.com'')
      \<or> trim (the (Some ''https://evil.example.com''))
          \<in> set (map trim (allowedOrigins (cors_origins example_config)))
      \<or> (app_env example_config = ''development''
          \<and> isLocalhost (trim (the (Some ''https://evil.example.com'')))))"
    by (simp add: example_config_def falsy_def trim_def isWhiteSpace_def regexp_defs)
  show ?thesis
    using lan listed other
      cors_origin_allowed_iff [of example_config "Some ''http://10.0.0.7:5173 ''"]
      cors_origin_allowed_iff [of example_config "Some ''https://app.example.com''"]
      cors_origin_allowed_iff [of example_config "Some ''https://evil.example.com''"]
    by blast
qed

subsection \<open>Startup\<close>

text \<open>
  Claim C2. In every execution of \<open>start\<close> on a new application, the authentication
  bootstrap is called only when the datastore connection has succeeded, and after the
  connection call; a route or router is on the stack only behind the complete list of
  middleware layers that \<open>setupMiddleware\<close> installs; and when the datastore connection or
  the authentication bootstrap fails, \<open>start\<close> rejects with that very error, without having
  called the bootstrap (in the first case) and without having mounted any route.
\<close>

theorem startup_ordering:
  "(PassportInitialize \<in> set (effects (snd (start w cfg constructor))) \<longrightarrow>
      connect_outcome w = None
      \<and> (\<exists>pre post. effects (snd (start w cfg constructor)) = pre @ PassportInitialize # post
            \<and> DbConnect \<in> set pre))
   \<and> (\<forall>l \<in> set (stack (snd (start w cfg constructor))). is_route l \<longrightarrow>
        (\<exists>rest. stack (snd (start w cfg constructor))
                  = stack (setupMiddleware cfg constructor) @ rest \<and> l \<in> set rest))
   \<and> (\<forall>e. connect_outcome w = Some e \<longrightarrow>
        fst (start w cfg constructor) = Some e
        \<and> stack (snd (start w cfg constructor)) = []
        \<and> PassportInitialize \<notin> set (effects (snd (start w cfg constructor))))
   \<and> (\<forall>e. connect_outcome w = None \<and> passport_outcome w = Some e \<longrightarrow>
        fst (start w cfg constructor) = Some e
        \<and> (\<forall>l \<in> set (stack (snd (start w cfg constructor))). \<not> is_route l))"
proof (intro conjI)
  show "PassportInitialize \<in> set (effects (snd (start w cfg constructor))) \<longrightarrow>
      connect_outcome w = None
      \<and> (\<exists>pre post. effects (snd (start w cfg constructor)) = pre @ PassportInitialize # post
            \<and> DbConnect \<in> set pre)"
  proof
    assume p: "PassportInitialize \<in> set (effects (snd (start w cfg constructor)))"
    then have c: "connect_outcome w = None"
      by (cases "connect_outcome w") (simp_all add: effects_start)
    let ?m = "if cors_enabled cfg then Log Info ''CORS Configuration Debug''
       else Log Warn ''CORS is disabled - this may cause issues with frontend communication''"
    obtain post where
      "effects (snd (start w cfg constructor)) =
         [DbConnect, Log Info ''Database connected successfully'', ?m] @ PassportInitialize # post"
      using c by (simp add: effects_start)
    then have "\<exists>pre post. effects (snd (start w cfg constructor)) = pre @ PassportInitialize # post
        \<and> DbConnect \<in> set pre"
      by (intro exI [of _ "[DbConnect, Log Info ''Database connected successfully'', ?m]"]
          exI [of _ post]) simp
    with c show "connect_outcome w = None
      \<and> (\<exists>pre post. effects (snd (start w cfg constructor)) = pre @ PassportInitialize # post
            \<and> DbConnect \<in> set pre)" by simp
  qed
next
  show "\<forall>l \<in> set (stack (snd (start w cfg constructor))). is_route l \<longrightarrow>
        (\<exists>rest. stack (snd (start w cfg constructor))
                  = stack (setupMiddleware cfg constructor) @ rest \<and> l \<in> set rest)"
  proof (intro ballI impI)
    fix l
    assume l: "l \<in> set (stack (snd (start w cfg constructor)))" and r: "is_route l"
    then have c: "connect_outcome w = None"
      by (cases "connect_outcome w") (simp_all add: stack_start)
    then obtain rest where
      s: "stack (snd (start w cfg constructor)) = stack (setupMiddleware cfg constructor) @ rest"
      by (simp add: stack_start)
    with l r no_route_in_middleware [of l cfg] have "l \<in> set rest" by auto
    with s show "\<exists>rest. stack (snd (start w cfg constructor))
                  = stack (setupMiddleware cfg constructor) @ rest \<and> l \<in> set rest"
      by blast
  qed
next
  show "\<forall>e. connect_outcome w = Some e \<longrightarrow>
        fst (start w cfg constructor) = Some e
        \<and> stack (snd (start w cfg constructor)) = []
        \<and> PassportInitialize \<notin> set (effects (snd (start w cfg constructor)))"
    by (simp add: fst_start stack_start effects_start)
next
  show "\<forall>e. connect_outcome w = None \<and> passport_outcome w = Some e \<longrightarrow>
        fst (start w cfg constructor) = Some e
        \<and> (\<forall>l \<in> set (stack (snd (start w cfg constructor))). \<not> is_route l)"
    by (auto simp add: fst_start stack_start dest: no_route_in_middleware)
qed

theorem startup_ordering_witness:
  "PassportInitialize \<in> set (effects (snd (start example_collaborators example_config constructor)))
   \<and> connect_outcome example_collaborators = None
   \<and> Route OnlyGet ''/health'' Health
        \<in> set (stack (snd (start example_collaborators example_config constructor)))
   \<and> is_route (Route OnlyGet ''/health'' Health)
   \<and> connect_outcome (example_collaborators\<lparr>connect_outcome := Some (Error ''ECONNREFUSED'')\<rparr>)
        = Some (Error ''ECONNREFUSED'')
   \<and> fst (start (example_collaborators\<lparr>connect_outcome := Some (Error ''ECONNREFUSED'')\<rparr>)
             example_config constructor) = Some (Error ''ECONNREFUSED'')
   \<and> passport_outcome (example_collaborators\<lparr>passport_outcome := Some (Error ''no strategy'')\<rparr>)
        = Some (Error ''no strategy'')
   \<and> fst (start (example_collaborators\<lparr>passport_outcome := Some (Error ''no strategy'')\<rparr>)
             example_config constructor) = Some (Error ''no strategy'')
   \<and> Cors \<in> set (stack (snd (start
        (example_collaborators\<lparr>passport_outcome := Some (Error ''no strategy'')\<rparr>)
        example_config constructor)))"
  using startup_ordering [of example_collaborators example_config]
    startup_ordering
      [of "example_collaborators\<lparr>connect_outcome := Some (Error ''ECONNREFUSED'')\<rparr>"
          example_config]
    startup_ordering
      [of "example_collaborators\<lparr>passport_outcome := Some (Error ''no strategy'')\<rparr>"
          example_config]
  by (simp add: example_collaborators_def effects_start stack_start example_middleware
      stack_setupRoutes)

subsection \<open>CORS switched off\<close>

lemma example_rejected:
  "corsOrigin example_config (Some ''https://evil.example.com'')
     = Inl (Error ''Not allowed by CORS'')"
  by (simp add: corsOrigin_def example_config_def falsy_def trim_def isWhiteSpace_def
      regexp_defs)

text \<open>
  Claim C8. When the CORS feature is disabled, \<open>setupMiddleware\<close> installs no CORS layer
  and only logs a warning; the stack that \<open>start\<close> builds has no CORS layer either, so
  its origin check rejects no origin.
\<close>

theorem cors_disabled_no_origin_check:
  assumes "\<not> cors_enabled cfg"
  shows "Cors \<notin> set (stack (setupMiddleware cfg constructor))
    \<and> effects (setupMiddleware cfg constructor)
        = [Log Warn ''CORS is disabled - this may cause issues with frontend communication'']
    \<and> Cors \<notin> set (stack (snd (start w cfg constructor)))
    \<and> cors_check cfg (stack (snd (start w cfg constructor))) R = None"
proof -
  have m: "Cors \<notin> set (stack (setupMiddleware cfg constructor))"
    using assms by (simp add: stack_setupMiddleware)
  have r: "Cors \<notin> set (stack (setupRoutes cfg constructor))"
    by (simp add: stack_setupRoutes)
  have s: "Cors \<notin> set (stack (snd (start w cfg constructor)))"
    using m r by (simp add: stack_start split: option.splits)
  show ?thesis
    using assms m s by (simp add: effects_setupMiddleware cors_check_absent)
qed

theorem cors_disabled_no_origin_check_witness:
  "\<not> cors_enabled (example_config\<lparr>cors_enabled := False\<rparr>)
   \<and> cors_check (example_config\<lparr>cors_enabled := False\<rparr>)
        (stack (snd (start example_collaborators (example_config\<lparr>cors_enabled := False\<rparr>)
           constructor))) (Some ''https://evil.example.com'') = None
   \<and> cors_check example_config
        (stack (snd (start example_collaborators example_config constructor)))
        (Some ''https://evil.example.com'') = Some (Error ''Not allowed by CORS'')"
proof -
  have off: "\<not> cors_enabled (example_config\<lparr>cors_enabled := False\<rparr>)" by simp
  have on: "cors_check example_config
        (stack (snd (start example_collaborators example_config constructor)))
        (Some ''https://evil.example.com'') = Some (Error ''Not allowed by CORS'')"
    by (simp add: stack_start example_collaborators_def example_middleware example_rejected)
  show ?thesis
    using off on
      cors_disabled_no_origin_check [OF off, of example_collaborators
        "Some ''https://evil.example.com''"]
    by simp
qed

subsection \<open>Idle session timeout\<close>

text \<open>
  Claim C9. When the configured idle timeout is missing or zero, no idle-timeout layer is
  installed, and so the stack invalidates no session for inactivity; when it is a positive
  number \<open>v\<close> of milliseconds, exactly one idle-timeout layer is installed, with the
  threshold \<open>v / 60000\<close> minutes.
\<close>

theorem idle_timeout_installation:
  "(session_idleTimeout cfg = None \<or> session_idleTimeout cfg = Some 0 \<longrightarrow>
      (\<forall>m. IdleSessionTimeout m \<notin> set (stack (setupMiddleware cfg constructor)))
      \<and> (\<forall>idle. \<not> idle_invalidates (stack (setupMiddleware cfg constructor)) idle))
   \<and> (\<forall>v. session_idleTimeout cfg = Some v \<and> 0 < v \<longrightarrow>
        (\<forall>m. IdleSessionTimeout m \<in> set (stack (setupMiddleware cfg constructor))
              \<longleftrightarrow> m = v / 60000))"
  by (auto simp add: stack_setupMiddleware truthy_number_def)

theorem idle_timeout_installation_witness:
  "session_idleTimeout example_config = Some 1800000 \<and> (0::real) < 1800000
   \<and> IdleSessionTimeout 30 \<in> set (stack (setupMiddleware example_config constructor))
   \<and> session_idleTimeout (example_config\<lparr>session_idleTimeout := Some 0\<rparr>) = Some 0
   \<and> \<not> idle_invalidates
         (stack (setupMiddleware (example_config\<lparr>session_idleTimeout := Some 0\<rparr>) constructor))
         100000"
proof -
  have pos: "session_idleTimeout example_config = Some 1800000 \<and> (0::real) < 1800000"
    by (simp add: example_config_def)
  have zero: "session_idleTimeout (example_config\<lparr>session_idleTimeout := Some 0\<rparr>) = Some 0"
    by simp
  show ?thesis
    using pos zero idle_timeout_installation [of example_config]
      idle_timeout_installation [of "example_config\<lparr>session_idleTimeout := Some 0\<rparr>"]
    by simp
qed

subsection \<open>Health and root endpoints\<close>

lemma round_mb_nearest:
  "1048576 * round_mb n \<le> n + 524288 \<and> n + 524288 < 1048576 * (round_mb n + 1)"
proof
  show "1048576 * round_mb n \<le> n + 524288"
    unfolding round_mb_def by simp
  show "n + 524288 < 1048576 * (round_mb n + 1)"
    unfolding round_mb_def
    using dividend_less_times_div [of 1048576 "n + 524288"] by simp
qed

lemma digit_value: "d < 10 \<Longrightarrow> of_char (''0123456789'' ! d) - 48 = (d::nat)"
proof -
  assume "d < 10"
  then consider "d = 0" | "d = 1" | "d = 2" | "d = 3" | "d = 4" | "d = 5" | "d = 6"
    | "d = 7" | "d = 8" | "d = 9" by atomize_elim arith
  then show ?thesis by cases simp_all
qed

lemma read_show_nat: "read_nat (show_nat n) = n"
proof (induction n rule: show_nat.induct)
  case (1 n)
  show ?case
  proof (cases "n < 10")
    case True
    then show ?thesis by (subst show_nat.simps) (simp add: digit_value)
  next
    case False
    with 1 have "read_nat (show_nat (n div 10)) = n div 10" by simp
    with False show ?thesis
      by (subst show_nat.simps) (simp add: digit_value)
  qed
qed

lemma show_nat_digits: "show_nat n \<noteq> [] \<and> set (show_nat n) \<subseteq> set ''0123456789''"
proof (induction n rule: show_nat.induct)
  case (1 n)
  have d: "''0123456789'' ! k \<in> set ''0123456789''" if "k < 10" for k
    using that nth_mem [of k "''0123456789''"] by simp
  show ?case
  proof (cases "n < 10")
    case True
    then show ?thesis using d [of n] by (subst (1 2) show_nat.simps) simp
  next
    case False
    with 1 have "show_nat (n div 10) \<noteq> [] \<and> set (show_nat (n div 10)) \<subseteq> set ''0123456789''"
      by simp
    with False d [of "n mod 10"] show ?thesis by (subst (1 2) show_nat.simps) simp
  qed
qed

lemma megabytes_decimal:
  "\<exists>ds. megabytes n = ds @ ''MB'' \<and> ds \<noteq> [] \<and> set ds \<subseteq> set ''0123456789''
     \<and> 1048576 * foldl (\<lambda>a c. 10 * a + (of_char c - 48)) 0 ds \<le> n + 524288
     \<and> n + 524288 < 1048576 * (foldl (\<lambda>a c. 10 * a + (of_char c - 48)) 0 ds + 1)"
proof -
  have "foldl (\<lambda>a c. 10 * a + (of_char c - 48)) 0 (show_nat (round_mb n)) = round_mb n"
    using read_show_nat [of "round_mb n"] by simp
  then show ?thesis
    using show_nat_digits [of "round_mb n"] round_mb_nearest [of n]
    by (intro exI [of _ "show_nat (round_mb n)"]) (simp add: megabytes_def)
qed

text \<open>
  Claim C5. Every request that the health route serves is answered with status 200 and
  body status \<open>healthy\<close> when the datastore reports ready, and with 503 and \<open>unhealthy\<close>
  when it does not; in both cases the body carries the configured service name, the
  version (3.0.0 unless configured), the environment, the process uptime, and the three
  memory figures in megabytes: each is a decimal numeral followed by \<open>MB\<close>, and the
  number it denotes is the byte count divided by 1048576 and rounded to the nearest
  integer, halves up.
\<close>

theorem health_endpoint_contract:
  assumes "route_matches env OnlyGet ''/health'' req"
  shows "\<exists>b. layer_action env cfg rt (Route OnlyGet ''/health'' Health) req
            = Done \<lparr>status_code = (if ready (getStatus rt) then 200 else 503),
                    json = HealthBody b\<rparr>
     \<and> h_status b = (if ready (getStatus rt) then ''healthy'' else ''unhealthy'')
     \<and> svc_name (h_service b) = app_name cfg
     \<and> svc_version (h_service b)
         = (case app_version cfg of
              None \<Rightarrow> ''3.0.0'' | Some v \<Rightarrow> if v = [] then ''3.0.0'' else v)
     \<and> svc_environment (h_service b) = app_env cfg
     \<and> svc_uptime (h_service b) = uptime rt
     \<and> (\<forall>(figure, n) \<in> set [(mem_rss (h_memory b), rss (memoryUsage rt)),
                             (mem_heapTotal (h_memory b), heapTotal (memoryUsage rt)),
                             (mem_heapUsed (h_memory b), heapUsed (memoryUsage rt))].
          \<exists>ds. figure = ds @ ''MB'' \<and> ds \<noteq> [] \<and> set ds \<subseteq> set ''0123456789''
            \<and> 1048576 * foldl (\<lambda>a c. 10 * a + (of_char c - 48)) 0 ds \<le> n + 524288
            \<and> n + 524288 < 1048576 * (foldl (\<lambda>a c. 10 * a + (of_char c - 48)) 0 ds + 1))"
proof -
  have v: "or_default (app_version cfg) ''3.0.0''
      = (case app_version cfg of
           None \<Rightarrow> ''3.0.0'' | Some v \<Rightarrow> if v = [] then ''3.0.0'' else v)"
    by (simp add: or_default_def falsy_def split: option.splits)
  have a: "layer_action env cfg rt (Route OnlyGet ''/health'' Health) req
      = Done (health_handler cfg rt)"
    using assms by simp
  show ?thesis
    unfolding a
    using megabytes_decimal [of "rss (memoryUsage rt)"]
      megabytes_decimal [of "heapTotal (memoryUsage rt)"]
      megabytes_decimal [of "heapUsed (memoryUsage rt)"]
    by (simp add: health_handler_def Let_def v)
qed

theorem health_endpoint_contract_witness:
  "route_matches example_environment OnlyGet ''/health''
     (example_request\<lparr>originalUrl := ''/health''\<rparr>)
   \<and> (\<exists>b. layer_action example_environment example_config example_runtime
             (Route OnlyGet ''/health'' Health) (example_request\<lparr>originalUrl := ''/health''\<rparr>)
            = Done \<lparr>status_code = 200, json = HealthBody b\<rparr>
        \<and> h_status b = ''healthy'')
   \<and> (\<exists>b. layer_action example_environment example_config example_outage
             (Route OnlyGet ''/health'' Health) (example_request\<lparr>originalUrl := ''/health''\<rparr>)
            = Done \<lparr>status_code = 503, json = HealthBody b\<rparr>
        \<and> h_status b = ''unhealthy'')
   \<and> h_memory (case json (health_handler example_config example_runtime) of
        HealthBody b \<Rightarrow> b)
      = \<lparr>mem_rss = ''100MB'', mem_heapTotal = ''51MB'', mem_heapUsed = ''2MB''\<rparr>"
proof -
  let ?req = "example_request\<lparr>originalUrl := ''/health''\<rparr>"
  have m: "route_matches example_environment OnlyGet ''/health'' ?req"
    by (simp add: route_matches_def example_environment_def example_request_def)
  have up: "ready (getStatus example_runtime)"
    and down: "\<not> ready (getStatus example_outage)"
    by (simp_all add: example_outage_def example_runtime_def)
  obtain b where b:
    "layer_action example_environment example_config example_runtime
       (Route OnlyGet ''/health'' Health) ?req
      = Done \<lparr>status_code = (if ready (getStatus example_runtime) then 200 else 503),
              json = HealthBody b\<rparr>"
    "h_status b = (if ready (getStatus example_runtime) then ''healthy'' else ''unhealthy'')"
    using health_endpoint_contract [OF m, of example_config example_runtime] by blast
  obtain c where c:
    "layer_action example_environment example_config example_outage
       (Route OnlyGet ''/health'' Health) ?req
      = Done \<lparr>status_code = (if ready (getStatus example_outage) then 200 else 503),
              json = HealthBody c\<rparr>"
    "h_status c = (if ready (getStatus example_outage) then ''healthy'' else ''unhealthy'')"
    using health_endpoint_contract [OF m, of example_config example_outage] by blast
  have "layer_action example_environment example_config example_runtime
          (Route OnlyGet ''/health'' Health) ?req
         = Done \<lparr>status_code = 200, json = HealthBody b\<rparr>
        \<and> h_status b = ''healthy''"
    using b up by simp
  moreover have "layer_action example_environment example_config example_outage
          (Route OnlyGet ''/health'' Health) ?req
         = Done \<lparr>status_code = 503, json = HealthBody c\<rparr>
        \<and> h_status c = ''unhealthy''"
    using c down by simp
  moreover have "h_memory (case json (health_handler example_config example_runtime) of
        HealthBody b \<Rightarrow> b)
      = \<lparr>mem_rss = ''100MB'', mem_heapTotal = ''51MB'', mem_heapUsed = ''2MB''\<rparr>"
    by (simp add: health_handler_def Let_def example_runtime_def megabytes_def round_mb_def
        show_nat.simps)
  ultimately show ?thesis using m by blast
qed

text \<open>
  Claim C10. Every request that the root route serves is answered with status 200 and
  body status \<open>operational\<close>, whatever the datastore reports and whatever the request,
  the configuration and the rest of the runtime state are.
\<close>

theorem root_endpoint_operational:
  assumes "route_matches env OnlyGet ''/'' req"
  shows "\<exists>b. layer_action env cfg rt (Route OnlyGet ''/'' Root) req
            = Done \<lparr>status_code = 200, json = RootBody b\<rparr>
     \<and> r_status b = ''operational''"
  using assms by (simp add: root_handler_def Let_def)


theorem root_endpoint_operational_witness:
  "route_matches example_environment OnlyGet ''/'' (example_request\<lparr>originalUrl := ''/''\<rparr>)
   \<and> (\<exists>b. layer_action example_environment example_config
             example_outage (Route OnlyGet ''/'' Root) (example_request\<lparr>originalUrl := ''/''\<rparr>)
            = Done \<lparr>status_code = 200, json = RootBody b\<rparr>
        \<and> r_status b = ''operational'')"
proof -
  have m: "route_matches example_environment OnlyGet ''/''
     (example_request\<lparr>originalUrl := ''/''\<rparr>)"
    by (simp add: route_matches_def example_environment_def example_request_def)
  show ?thesis
    using m root_endpoint_operational [OF m, of example_config]
    by blast
qed

subsection \<open>Undefined routes\<close>












subsection \<open>Shutdown\<close>

lemma ended_append [simp]: "ended (xs @ ys) = ended xs @ ended ys"
  by (induction xs rule: ended.induct) simp_all

lemma ended_map [simp]: "ended (map ConnectionEnd cs) = cs"
  by (induction cs) simp_all

lemma count_close_map [simp]: "count_list (map ConnectionEnd cs) DbClose = 0"
  by (induction cs) simp_all

lemma end_connections_effects:
  "effects (snd (end_connections f cs a)) = effects a @ map ConnectionEnd (ended_by f cs)"
  by (induction f cs a rule: end_connections.induct) (simp_all add: Let_def split: option.splits)

lemma end_connections_fst:
  "fst (end_connections f cs a) = None \<longleftrightarrow> (\<forall>c \<in> set cs. f c = None)"
  by (induction f cs a rule: end_connections.induct) (simp_all add: Let_def split: option.splits)

lemma end_connections_fields:
  "connections (snd (end_connections f cs a)) = connections a"
  "isShuttingDown (snd (end_connections f cs a)) = isShuttingDown a"
  "stack (snd (end_connections f cs a)) = stack a"
  by (induction f cs a rule: end_connections.induct) (simp_all add: Let_def split: option.splits)

lemma ended_by_subset: "set (ended_by f cs) \<subseteq> set cs"
  by (induction f cs rule: ended_by.induct) (auto split: option.splits)

lemma ended_by_distinct: "distinct cs \<Longrightarrow> distinct (ended_by f cs)"
  using ended_by_subset [of f]
  by (induction f cs rule: ended_by.induct) (auto split: option.splits)

lemma stop_again:
  "isShuttingDown a \<Longrightarrow>
   stop w a = (None, logger Warn ''Application is already shutting down'' a)"
  by (simp add: stop_def)

lemma stop_effects:
  "\<not> isShuttingDown a \<Longrightarrow>
   effects (snd (stop w a)) = effects a @ Log Info ''Stopping application gracefully'' #
     map ConnectionEnd (ended_by (end_outcome w) (connections a)) @
     (if \<exists>c \<in> set (connections a). end_outcome w c \<noteq> None
      then [Log Err ''Error during application shutdown'']
      else DbClose #
        (case close_outcome w of
           Some e \<Rightarrow> [Log Err ''Error during application shutdown'']
         | None \<Rightarrow> [Log Info ''Database connection closed'',
                     Log Info ''Application stopped successfully'']))"
proof -
  assume n: "\<not> isShuttingDown a"
  let ?a = "logger Info ''Stopping application gracefully'' (a\<lparr>isShuttingDown := True\<rparr>)"
  obtain r a' where e: "end_connections (end_outcome w) (connections ?a) ?a = (r, a')"
    by (cases "end_connections (end_outcome w) (connections ?a) ?a")
  have r: "r = None \<longleftrightarrow> (\<forall>c \<in> set (connections a). end_outcome w c = None)"
    using end_connections_fst [of "end_outcome w" "connections ?a" ?a] e by simp
  have a': "effects a' = effects a @ Log Info ''Stopping application gracefully'' #
      map ConnectionEnd (ended_by (end_outcome w) (connections a))"
    using end_connections_effects [of "end_outcome w" "connections ?a" ?a] e by simp
  show ?thesis
    using n e r a' by (cases r) (auto simp add: stop_def Let_def split: option.splits)
qed

lemma stop_fields:
  "isShuttingDown (snd (stop w a))"
  "connections (snd (stop w a)) = connections a"
  "stack (snd (stop w a)) = stack a"
proof -
  let ?a = "logger Info ''Stopping application gracefully'' (a\<lparr>isShuttingDown := True\<rparr>)"
  obtain r a' where e: "end_connections (end_outcome w) (connections ?a) ?a = (r, a')"
    by (cases "end_connections (end_outcome w) (connections ?a) ?a")
  have f: "isShuttingDown a'" "connections a' = connections a" "stack a' = stack a"
    using end_connections_fields [of "end_outcome w" "connections ?a" ?a] e by simp_all
  show "isShuttingDown (snd (stop w a))"
    using e f by (simp add: stop_def Let_def split: option.splits)
  show "connections (snd (stop w a)) = connections a"
    using e f by (simp add: stop_def Let_def split: option.splits)
  show "stack (snd (stop w a)) = stack a"
    using e f by (simp add: stop_def Let_def split: option.splits)
qed

lemma set_add_distinct: "distinct xs \<Longrightarrow> distinct (set_add x xs)"
  by (simp add: set_add_def)

lemma set_delete_distinct: "distinct xs \<Longrightarrow> distinct (set_delete x xs)"
  by (simp add: set_delete_def distinct_removeAll)

lemma shutdown_inv_step: "shutdown_inv a \<Longrightarrow> shutdown_inv (step e a)"
proof (cases e)
  case (Begin r)
  assume "shutdown_inv a"
  with Begin show ?thesis by simp
next
  case (Close r)
  assume "shutdown_inv a"
  with Close show ?thesis by simp
next
  case (Arrive r)
  assume "shutdown_inv a"
  with Arrive show ?thesis by (simp add: shutdown_inv_def track_def set_add_distinct)
next
  case (Finish r)
  assume "shutdown_inv a"
  with Finish show ?thesis by (simp add: shutdown_inv_def on_finish_def set_delete_distinct)
next
  case (Stop w)
  assume i: "shutdown_inv a"
  show ?thesis
  proof (cases "isShuttingDown a")
    case True
    with i Stop show ?thesis by (simp add: stop_again shutdown_inv_def)
  next
    case False
    with i have d: "distinct (ended_by (end_outcome w) (connections a))"
      by (simp add: shutdown_inv_def ended_by_distinct)
    from i False Stop d show ?thesis
      by (simp add: shutdown_inv_def stop_effects stop_fields split: option.splits)
  qed
qed

lemma shutdown_inv_run: "shutdown_inv a \<Longrightarrow> shutdown_inv (run es a)"
  by (induction es arbitrary: a) (simp_all add: shutdown_inv_step)

lemma shutdown_inv_constructor: "shutdown_inv constructor"
  by (simp add: shutdown_inv_def)

lemma flag_step: "isShuttingDown a \<Longrightarrow> isShuttingDown (step e a)"
  by (cases e) (simp_all add: track_def on_finish_def stop_fields)

lemma flag_run: "isShuttingDown a \<Longrightarrow> isShuttingDown (run es a)"
  by (induction es arbitrary: a) (simp_all add: flag_step)

lemma example_events_run:
  "connections (run example_events constructor) = [2, 4]"
  "ended (effects (run example_events constructor)) = [2, 3]"
  "count_list (effects (run example_events constructor)) DbClose = 1"
  by (simp_all add: example_events_def example_collaborators_def track_def on_finish_def
      set_add_def set_delete_def stop_def Let_def)

text \<open>
  Claim C3. A call of \<open>stop\<close> that follows another call, whether that one returned or
  threw, changes nothing and only logs a warning; after any call the shutdown flag is
  set, and once set it stays set through every further event, so it goes from false to
  true once; and over any sequence of requests, finished responses and calls of \<open>stop\<close>
  on a new application the datastore is closed at most once.
\<close>

theorem stop_idempotent:
  "stop w' (snd (stop w a))
     = (None, logger Warn ''Application is already shutting down'' (snd (stop w a)))
   \<and> isShuttingDown (snd (stop w a))
   \<and> (isShuttingDown a \<longrightarrow> isShuttingDown (run es a))
   \<and> count_list (effects (run es constructor)) DbClose \<le> 1"
  using shutdown_inv_run [OF shutdown_inv_constructor, of es]
  by (simp add: stop_again stop_fields flag_run shutdown_inv_def)

theorem stop_idempotent_witness:
  "isShuttingDown (snd (stop example_collaborators constructor))
   \<and> isShuttingDown (run example_events (snd (stop example_collaborators constructor)))
   \<and> count_list (effects (run example_events constructor)) DbClose = 1"
  using stop_idempotent [of example_collaborators example_collaborators constructor example_events]
    stop_idempotent [of example_collaborators example_collaborators
      "snd (stop example_collaborators constructor)" example_events]
  by (simp add: example_events_run)

subsection \<open>The connection set\<close>

lemma ordered_take: "ordered F es \<Longrightarrow> ordered F (take n es)"
proof (induction es arbitrary: F n)
  case Nil
  then show ?case by simp
next
  case (Cons e es)
  show ?case
  proof (cases n)
    case 0
    then show ?thesis by simp
  next
    case (Suc m)
    with Cons show ?thesis by (cases e) simp_all
  qed
qed

lemma ordered_no_arrival: "ordered F es \<Longrightarrow> r \<in> set F \<Longrightarrow> Arrive r \<notin> set es"
  by (induction F es rule: ordered.induct) auto

lemma tracked_run:
  "ordered F es \<Longrightarrow>
   set (connections (run es a))
     = (set (connections a) \<union> {r. Arrive r \<in> set es}) - {r. Finish r \<in> set es}"
proof (induction es arbitrary: a F)
  case Nil
  then show ?case by simp
next
  case (Cons e es)
  show ?case
  proof (cases e)
    case (Begin r)
    with Cons show ?thesis by auto
  next
    case (Arrive r)
    with Cons.prems have "ordered F es" by simp
    then have "set (connections (run es (track r a)))
        = (set (connections (track r a)) \<union> {r. Arrive r \<in> set es}) - {r. Finish r \<in> set es}"
      by (rule Cons.IH)
    with Arrive show ?thesis by (auto simp add: track_def set_add_def)
  next
    case (Finish r)
    with Cons.prems have o: "ordered (r # F) es" by simp
    then have "set (connections (run es (on_finish r a)))
        = (set (connections (on_finish r a)) \<union> {r. Arrive r \<in> set es})
          - {r. Finish r \<in> set es}"
      by (rule Cons.IH)
    moreover have "Arrive r \<notin> set es"
      using o by (rule ordered_no_arrival) simp
    ultimately show ?thesis using Finish by (auto simp add: on_finish_def set_delete_def)
  next
    case (Close r)
    with Cons show ?thesis by auto
  next
    case (Stop w)
    with Cons.prems have "ordered F es" by simp
    then have "set (connections (run es (snd (stop w a))))
        = (set (connections (snd (stop w a))) \<union> {r. Arrive r \<in> set es})
          - {r. Finish r \<in> set es}"
      by (rule Cons.IH)
    with Stop show ?thesis by (auto simp add: stop_fields)
  qed
qed

lemma example_traffic_run:
  "connections (run example_traffic constructor) = [3, 4]"
  "ended (effects (run example_traffic constructor)) = [1, 3]"
  by (simp_all add: example_traffic_def example_collaborators_def track_def on_finish_def
      set_add_def set_delete_def stop_def Let_def)

text \<open>
  Claim C4 says that the connection set holds exactly the requests that have started and
  not finished. A request is tracked only once it reaches the tracking middleware, the
  last layer of the middleware, and it is removed only when its response emits
  \<open>finish\<close>: request 1 has begun, is in flight and is not in the set; request 2 reached
  the tracking middleware and its response was closed without finishing, so it is no
  longer in flight and still in the set.
\<close>

theorem connection_set_in_flight_counterexample:
  "in_flight [Begin 1] 1
   \<and> 1 \<notin> set (connections (run [Begin 1] constructor))
   \<and> \<not> in_flight [Begin 2, Arrive 2, Close 2] 2
   \<and> 2 \<in> set (connections (run [Begin 2, Arrive 2, Close 2] constructor))"
  by (simp add: in_flight_def track_def set_add_def)

text \<open>
  Claim C4, amended. Take any sequence of requests coming in, requests reaching the
  tracking middleware, responses finishing or closing and calls of \<open>stop\<close>, on a new
  application, in which no response handle reaches the tracking middleware after it has
  finished. After every prefix of it, the connection set holds exactly the response
  handles that have reached the tracking middleware and not emitted \<open>finish\<close>, its size
  is the number of these handles, and no handle has been ended twice by \<open>stop\<close>.
\<close>

theorem connection_set_tracked:
  assumes "ordered [] es"
  shows "(\<forall>r. r \<in> set (connections (run (take n es) constructor))
            \<longleftrightarrow> Arrive r \<in> set (take n es) \<and> Finish r \<notin> set (take n es))
     \<and> length (connections (run (take n es) constructor))
         = card {r. Arrive r \<in> set (take n es) \<and> Finish r \<notin> set (take n es)}
     \<and> distinct (ended (effects (run (take n es) constructor)))"
proof -
  have "ordered [] (take n es)"
    using assms by (rule ordered_take)
  then have "set (connections (run (take n es) constructor))
      = (set (connections constructor) \<union> {r. Arrive r \<in> set (take n es)})
        - {r. Finish r \<in> set (take n es)}"
    by (rule tracked_run)
  then have t: "set (connections (run (take n es) constructor))
      = {r. Arrive r \<in> set (take n es) \<and> Finish r \<notin> set (take n es)}"
    by auto
  have i: "distinct (connections (run (take n es) constructor))
      \<and> distinct (ended (effects (run (take n es) constructor)))"
    using shutdown_inv_run [OF shutdown_inv_constructor, of "take n es"]
    by (simp add: shutdown_inv_def)
  then have "length (connections (run (take n es) constructor))
      = card (set (connections (run (take n es) constructor)))"
    by (simp add: distinct_card)
  with t i show ?thesis by auto
qed

theorem connection_set_tracked_witness:
  "ordered [] example_traffic
   \<and> connections (run (take 11 example_traffic) constructor) = [3, 4]
   \<and> (3 \<in> set (connections (run (take 11 example_traffic) constructor))
        \<longleftrightarrow> Arrive 3 \<in> set (take 11 example_traffic)
            \<and> Finish 3 \<notin> set (take 11 example_traffic))
   \<and> card {r. Arrive r \<in> set (take 11 example_traffic)
              \<and> Finish r \<notin> set (take 11 example_traffic)} = 2
   \<and> ended (effects (run (take 11 example_traffic) constructor)) = [1, 3]"
proof -
  have w: "ordered [] example_traffic"
    by (simp add: example_traffic_def)
  have t: "take 11 example_traffic = example_traffic"
    by (simp add: example_traffic_def)
  have m: "Arrive 3 \<in> set example_traffic \<and> Finish 3 \<notin> set example_traffic"
    by (simp add: example_traffic_def)
  show ?thesis
    using w m connection_set_tracked [OF w, of 11] by (simp add: t example_traffic_run)
qed

subsection \<open>Raw body capture\<close>

lemma body_parsing_none:
  "\<forall>l \<in> set ls. \<not> is_parser l \<Longrightarrow> body_parsing lib ls req = (None, req)"
  by (induction lib ls req rule: body_parsing.induct) simp_all

lemma body_parsing_skip:
  "\<forall>l \<in> set ls. \<not> is_parser l \<Longrightarrow> body_parsing lib (ls @ ms) req = body_parsing lib ms req"
  by (induction lib ls req rule: body_parsing.induct) simp_all

lemma parsers_in_middleware:
  "\<exists>front rear. stack (setupMiddleware cfg constructor) =
      front @
      [JsonParser \<lparr>p_limit = or_default (app_uploadLimit cfg) ''10mb'', p_verify = True\<rparr>,
       UrlencodedParser
         \<lparr>p_limit = or_default (app_uploadLimit cfg) ''10mb'', p_verify = False\<rparr>] @ rear
    \<and> (\<forall>l \<in> set front. \<not> is_parser l) \<and> (\<forall>l \<in> set rear. \<not> is_parser l)"
proof -
  let ?front = "(if helmet_enabled cfg then [Helmet (app_env cfg \<noteq> ''production'')] else []) @
    (if cors_enabled cfg then [Cors] else [])"
  let ?rear = "(if sanitize_enabled cfg then [MongoSanitize] else []) @
    [CookieParser, Compression, MethodOverride ''_method'',
     MethodOverride ''X-HTTP-Method-Override'',
     Static ''/uploads'' ''uploads''
       (if app_env cfg = ''production'' then Duration ''7d'' else Millis 0),
     Static ''/public'' ''public''
       (if app_env cfg = ''production'' then Duration ''30d'' else Millis 0)] @
    (if logging_enabled cfg then [HttpLogger] else []) @
    (if logging_enabled cfg \<and> app_env cfg = ''development'' then [Morgan ''dev''] else []) @
    [Session (session_store cfg = ''mongodb'') (app_env cfg = ''production''), Flash,
     FlashLocals, SessionSecurity, SessionActivity] @
    (if truthy_number (session_idleTimeout cfg)
     then [IdleSessionTimeout (the (session_idleTimeout cfg) / 60000)] else []) @
    [ConnectionTracking]"
  have "stack (setupMiddleware cfg constructor) =
      ?front @
      [JsonParser \<lparr>p_limit = or_default (app_uploadLimit cfg) ''10mb'', p_verify = True\<rparr>,
       UrlencodedParser
         \<lparr>p_limit = or_default (app_uploadLimit cfg) ''10mb'', p_verify = False\<rparr>] @ ?rear"
    by (simp only: stack_setupMiddleware constructor_fields append_Nil append_assoc)
  moreover have "\<forall>l \<in> set ?front. \<not> is_parser l" by auto
  moreover have "\<forall>l \<in> set ?rear. \<not> is_parser l" by auto
  ultimately show ?thesis by blast
qed

lemma body_parsing_middleware:
  "body_parsing lib (stack (setupMiddleware cfg constructor)) req =
     (case body_parser lib Json
        \<lparr>p_limit = or_default (app_uploadLimit cfg) ''10mb'', p_verify = True\<rparr> req of
        (Some e, req') \<Rightarrow> (Some e, req')
      | (None, req') \<Rightarrow>
          body_parser lib Urlencoded
            \<lparr>p_limit = or_default (app_uploadLimit cfg) ''10mb'', p_verify = False\<rparr> req')"
proof -
  obtain front rear where
    s: "stack (setupMiddleware cfg constructor) =
      front @
      [JsonParser \<lparr>p_limit = or_default (app_uploadLimit cfg) ''10mb'', p_verify = True\<rparr>,
       UrlencodedParser
         \<lparr>p_limit = or_default (app_uploadLimit cfg) ''10mb'', p_verify = False\<rparr>] @ rear"
    and f: "\<forall>l \<in> set front. \<not> is_parser l" and b: "\<forall>l \<in> set rear. \<not> is_parser l"
    using parsers_in_middleware [of cfg] by blast
  show ?thesis
    unfolding s
    by (simp add: body_parsing_skip [OF f] body_parsing_none [OF b]
        split: prod.splits option.splits)
qed

lemma example_form_parsing:
  "body_parsing (example_library 10485760)
     (stack (setupMiddleware example_config constructor)) example_form_request
   = (None, example_form_request\<lparr>parsed := FormValue ''name=Ada&lang=en'', body_read := True\<rparr>)"
  by (simp add: body_parsing_middleware body_parser_def example_library_def
      example_form_request_def Let_def)

text \<open>
  Claim C7 says that the body-parsing stage captures the raw body of every request with a
  JSON or form-encoded body. Only the JSON parser is given the \<open>verify\<close> hook: a
  form-encoded body that the form parser reads is parsed, and \<open>rawBody\<close> is not set.
\<close>

theorem raw_body_form_counterexample:
  "has_body example_form_request
   \<and> content_type example_form_request = Some Urlencoded
   \<and> parsed (snd (body_parsing (example_library 10485760)
        (stack (setupMiddleware example_config constructor)) example_form_request))
       = FormValue ''name=Ada&lang=en''
   \<and> rawBody (snd (body_parsing (example_library 10485760)
        (stack (setupMiddleware example_config constructor)) example_form_request))
       \<noteq> Some (Utf8 (payload example_form_request))"
  by (simp add: example_form_parsing) (simp add: example_form_request_def)

text \<open>
  Claim C7, amended. The body-parsing stage hands the configured size ceiling (10mb
  unless configured) to the JSON parser and to the form parser. For a request that no
  parser has taken yet, \<open>rawBody\<close> is set exactly when the JSON parser reads the body, to
  the bytes read, decoded as UTF-8, before they are parsed, and next to the parsed body
  when parsing succeeds. In every other case \<open>rawBody\<close> is left as it was: when the JSON
  parser skips, refuses or fails to read the body (over the ceiling, for one), and when
  the form parser reads and parses it.
\<close>

theorem raw_body_capture:
  "(let limit = (case app_uploadLimit cfg of
                   None \<Rightarrow> ''10mb'' | Some v \<Rightarrow> if v = [] then ''10mb'' else v);
        with_hook = \<lparr>p_limit = limit, p_verify = True\<rparr>;
        without_hook = \<lparr>p_limit = limit, p_verify = False\<rparr>;
        after = body_parsing lib (stack (setupMiddleware cfg constructor)) req;
        req1 = (if parsed req = Unparsed then req\<lparr>parsed := EmptyObject\<rparr> else req)
    in rawBody (snd after)
         = (if body_read req then rawBody req
            else case reading_of lib Json with_hook req of
                   Read buf \<Rightarrow> Some (Utf8 buf)
                 | _ \<Rightarrow> rawBody req)
       \<and> (\<forall>buf. \<not> body_read req \<and> reading_of lib Json with_hook req = Read buf
                 \<and> parse_error lib Json buf = None \<longrightarrow>
             after = (None, req\<lparr>rawBody := Some (Utf8 buf), parsed := JsonValue buf,
                                body_read := True\<rparr>))
       \<and> (\<forall>buf. \<not> body_read req \<and> reading_of lib Json with_hook req = Skipped
                 \<and> reading_of lib Urlencoded without_hook req1 = Read buf
                 \<and> parse_error lib Urlencoded buf = None \<longrightarrow>
             after = (None, req\<lparr>parsed := FormValue buf, body_read := True\<rparr>)))"
proof -
  have limit: "or_default (app_uploadLimit cfg) ''10mb''
      = (case app_uploadLimit cfg of
           None \<Rightarrow> ''10mb'' | Some v \<Rightarrow> if v = [] then ''10mb'' else v)"
    by (simp add: or_default_def falsy_def split: option.splits)
  show ?thesis
    unfolding body_parsing_middleware limit
    by (auto simp add: body_parser_def verify_def Let_def
        split: reading.splits option.splits)
qed

theorem raw_body_capture_witness:
  "\<not> body_read example_json_request
   \<and> reading_of (example_library 10485760) Json \<lparr>p_limit = ''10mb'', p_verify = True\<rparr>
        example_json_request = Read ''{\"name\":\"Ada\"}''
   \<and> body_parsing (example_library 10485760)
        (stack (setupMiddleware example_config constructor)) example_json_request
       = (None, example_json_request
            \<lparr>rawBody := Some (Utf8 ''{\"name\":\"Ada\"}''),
             parsed := JsonValue ''{\"name\":\"Ada\"}'', body_read := True\<rparr>)
   \<and> rawBody (snd (body_parsing (example_library 10485760)
        (stack (setupMiddleware example_config constructor)) example_form_request))
       = rawBody example_form_request
   \<and> rawBody (snd (body_parsing (example_library 8)
        (stack (setupMiddleware example_config constructor)) example_json_request))
       = rawBody example_json_request"
proof -
  let ?stack = "stack (setupMiddleware example_config constructor)"
  let ?hook = "\<lparr>p_limit = ''10mb'', p_verify = True\<rparr>"
  have l: "(case app_uploadLimit example_config of
              None \<Rightarrow> ''10mb'' | Some v \<Rightarrow> if v = [] then ''10mb'' else v) = ''10mb''"
    by (simp add: example_config_def)
  have n: "\<not> body_read example_json_request" "\<not> body_read example_form_request"
    by (simp_all add: example_json_request_def example_form_request_def)
  have j: "reading_of (example_library 10485760) Json ?hook example_json_request
      = Read ''{\"name\":\"Ada\"}''"
    and p: "parse_error (example_library 10485760) Json ''{\"name\":\"Ada\"}'' = None"
    and f: "reading_of (example_library 10485760) Json ?hook example_form_request = Skipped"
    and b: "reading_of (example_library 8) Json ?hook example_json_request
      = Failed (HttpError 413 ''request entity too large'')"
    by (simp_all add: example_library_def example_json_request_def example_form_request_def)
  have "body_parsing (example_library 10485760) ?stack example_json_request
      = (None, example_json_request
           \<lparr>rawBody := Some (Utf8 ''{\"name\":\"Ada\"}''),
            parsed := JsonValue ''{\"name\":\"Ada\"}'', body_read := True\<rparr>)"
    using raw_body_capture [of example_config "example_library 10485760" example_json_request]
      n j p
    by (simp add: Let_def l)
  moreover have "rawBody (snd (body_parsing (example_library 10485760) ?stack
      example_form_request)) = rawBody example_form_request"
    using raw_body_capture [of example_config "example_library 10485760" example_form_request]
      n f
    by (simp add: Let_def l)
  moreover have "rawBody (snd (body_parsing (example_library 8) ?stack example_json_request))
      = rawBody example_json_request"
    using raw_body_capture [of example_config "example_library 8" example_json_request] n b
    by (simp add: Let_def l)
  ultimately show ?thesis using n j by simp
qed

end
